theory Spec2Isabelle
  imports Complex_Main "HOL-Library.Word"
begin

section \<open>The lease-token contract (contracts/DomainLeaseNFT.sol)\<close>

text \<open>
  The contract stores one \<open>LeaseInfo\<close> per token id, a map from domain names to token
  ids, a fee, a treasury address and a token counter. It inherits the ERC721 token, its
  URI-storage extension, \<open>Ownable\<close> and \<open>Counters\<close> from the OpenZeppelin library
  (the 4.x line: it still has \<open>Counters\<close> and an \<open>Ownable\<close> constructor without
  argument). The library is imported, not part of the repository; the few library
  functions the contract calls or exposes are written out below after the library's
  4.x sources, each marked as such.

  Solidity's \<open>address\<close> is a 160-bit word, \<open>uint256\<close> a 256-bit word. A mapping is
  a total function whose default is the zero value. A transaction either returns the
  new storage or reverts with a message; a reverted transaction leaves the storage as
  it was. Events are not modelled.
\<close>

type_synonym address = "160 word"
type_synonym uint256 = "256 word"

record LeaseInfo =
  domainName :: string
  lessor :: address
  lessee :: address
  startDate :: uint256
  endDate :: uint256
  priceAmount :: uint256
  restrictions :: string
  agreementIpfsHash :: string
  active :: bool

text \<open>The zero value of the struct: what an unset mapping slot and \<open>delete\<close> give.\<close>

definition zero_lease :: LeaseInfo where
  "zero_lease = \<lparr>domainName = [], lessor = 0, lessee = 0, startDate = 0, endDate = 0,
     priceAmount = 0, restrictions = [], agreementIpfsHash = [], active = False\<rparr>"

record contract =
  tokenIds :: uint256
  leases :: "uint256 \<Rightarrow> LeaseInfo"
  domainToToken :: "string \<Rightarrow> uint256"
  platformFee :: uint256
  treasury :: address
  funds :: uint256
  erc_owners :: "uint256 \<Rightarrow> address"
  erc_balances :: "address \<Rightarrow> uint256"
  erc_tokenApprovals :: "uint256 \<Rightarrow> address"
  erc_operatorApprovals :: "address \<Rightarrow> address \<Rightarrow> bool"
  erc_tokenURIs :: "uint256 \<Rightarrow> string"
  ownable_owner :: address

text \<open>
  \<open>funds\<close> is the contract's ether balance (\<open>address(this).balance\<close>); the fields
  \<open>erc_...\<close> are the private storage of the library's ERC721 and ERC721URIStorage
  (\<open>_owners\<close>, \<open>_balances\<close>, \<open>_tokenApprovals\<close>, \<open>_operatorApprovals\<close>,
  \<open>_tokenURIs\<close>), \<open>ownable_owner\<close> that of Ownable (\<open>_owner\<close>).
\<close>

type_synonym 'a tx = "string + 'a"

definition require :: "bool \<Rightarrow> string \<Rightarrow> 'a tx \<Rightarrow> 'a tx" where
  "require c msg k = (if c then k else Inl msg)"

definition and_then :: "'a tx \<Rightarrow> ('a \<Rightarrow> 'b tx) \<Rightarrow> 'b tx" where
  "and_then r k = (case r of Inl e \<Rightarrow> Inl e | Inr x \<Rightarrow> k x)"

text \<open>The constructor: the deployer becomes the owner, the fee starts at 500.\<close>

definition constructor :: "address \<Rightarrow> address \<Rightarrow> contract" where
  "constructor deployer t =
     \<lparr>tokenIds = 0, leases = (\<lambda>_. zero_lease), domainToToken = (\<lambda>_. 0),
      platformFee = 500, treasury = t, funds = 0,
      erc_owners = (\<lambda>_. 0), erc_balances = (\<lambda>_. 0), erc_tokenApprovals = (\<lambda>_. 0),
      erc_operatorApprovals = (\<lambda>_ _. False), erc_tokenURIs = (\<lambda>_. []),
      ownable_owner = deployer\<rparr>"

subsection \<open>Library functions (OpenZeppelin 4.x)\<close>

definition exists_token :: "contract \<Rightarrow> uint256 \<Rightarrow> bool" where
  \<comment> \<open>ERC721._exists: the token has an owner\<close>
  "exists_token s t = (erc_owners s t \<noteq> 0)"

definition erc721_mint :: "address \<Rightarrow> uint256 \<Rightarrow> contract \<Rightarrow> contract tx" where
  \<comment> \<open>ERC721._mint\<close>
  "erc721_mint to t s =
     require (to \<noteq> 0) ''ERC721: mint to the zero address''
    (require (\<not> exists_token s t) ''ERC721: token already minted''
    (Inr (s\<lparr>erc_balances := (erc_balances s)(to := erc_balances s to + 1),
            erc_owners := (erc_owners s)(t := to)\<rparr>)))"

definition erc721_safeMint :: "bool \<Rightarrow> address \<Rightarrow> uint256 \<Rightarrow> contract \<Rightarrow> contract tx" where
  \<comment> \<open>ERC721._safeMint; \<open>accepts\<close> is the answer of the receiver check
      (_checkOnERC721Received): true for an account and for a contract that accepts\<close>
  "erc721_safeMint accepts to t s =
     and_then (erc721_mint to t s) (\<lambda>s'.
       require accepts ''ERC721: transfer to non ERC721Receiver implementer'' (Inr s'))"

definition setTokenURI :: "uint256 \<Rightarrow> string \<Rightarrow> contract \<Rightarrow> contract tx" where
  \<comment> \<open>ERC721URIStorage._setTokenURI\<close>
  "setTokenURI t uri s =
     require (exists_token s t) ''ERC721URIStorage: URI set of nonexistent token''
       (Inr (s\<lparr>erc_tokenURIs := (erc_tokenURIs s)(t := uri)\<rparr>))"

definition ownerOf :: "contract \<Rightarrow> uint256 \<Rightarrow> address tx" where
  \<comment> \<open>ERC721.ownerOf\<close>
  "ownerOf s t = require (erc_owners s t \<noteq> 0) ''ERC721: invalid token ID'' (Inr (erc_owners s t))"

definition super_transfer :: "address \<Rightarrow> address \<Rightarrow> uint256 \<Rightarrow> contract \<Rightarrow> contract tx" where
  \<comment> \<open>ERC721._transfer, the \<open>super._transfer\<close> of the contract's override\<close>
  "super_transfer from to t s =
     and_then (ownerOf s t) (\<lambda>ow.
       require (ow = from) ''ERC721: transfer from incorrect owner''
      (require (to \<noteq> 0) ''ERC721: transfer to the zero address''
      (Inr (s\<lparr>erc_tokenApprovals := (erc_tokenApprovals s)(t := 0),
              erc_balances := ((erc_balances s)(from := erc_balances s from - 1))
                 (to := ((erc_balances s)(from := erc_balances s from - 1)) to + 1),
              erc_owners := (erc_owners s)(t := to)\<rparr>))))"

definition super_burn :: "uint256 \<Rightarrow> contract \<Rightarrow> contract tx" where
  \<comment> \<open>ERC721URIStorage._burn over ERC721._burn, the \<open>super._burn\<close> of the override\<close>
  "super_burn t s =
     and_then (ownerOf s t) (\<lambda>ow.
       Inr (s\<lparr>erc_tokenApprovals := (erc_tokenApprovals s)(t := 0),
              erc_balances := (erc_balances s)(ow := erc_balances s ow - 1),
              erc_owners := (erc_owners s)(t := 0),
              erc_tokenURIs := (erc_tokenURIs s)(t := [])\<rparr>))"

definition isApprovedOrOwner :: "contract \<Rightarrow> address \<Rightarrow> uint256 \<Rightarrow> bool tx" where
  \<comment> \<open>ERC721._isApprovedOrOwner\<close>
  "isApprovedOrOwner s spender t =
     and_then (ownerOf s t) (\<lambda>ow.
       Inr (spender = ow \<or> erc_operatorApprovals s ow spender \<or> erc_tokenApprovals s t = spender))"

subsection \<open>The contract's own functions\<close>

text \<open>
  \<open>sender\<close> is \<open>msg.sender\<close>. \<open>onlyOwner\<close> is the first check of the functions that
  carry the modifier. \<open>mintLease\<close> returns the new storage and the new token id.
\<close>

definition onlyOwner :: "address \<Rightarrow> contract \<Rightarrow> 'a tx \<Rightarrow> 'a tx" where
  "onlyOwner sender s k = require (sender = ownable_owner s) ''Ownable: caller is not the owner'' k"

definition mintLease ::
  "address \<Rightarrow> bool \<Rightarrow> address \<Rightarrow> address \<Rightarrow> string \<Rightarrow> uint256 \<Rightarrow> uint256 \<Rightarrow> uint256 \<Rightarrow>
   string \<Rightarrow> string \<Rightarrow> string \<Rightarrow> contract \<Rightarrow> (contract \<times> uint256) tx" where
  "mintLease sender accepts lessor' lessee' domainName' startDate' endDate' priceAmount'
       restrictions' agreementIpfsHash' tokenURI' s =
     onlyOwner sender s
    (require (length domainName' > 0) ''Domain name required''
    (require (lessee' \<noteq> 0) ''Invalid lessee address''
    (require (endDate' > startDate') ''End date must be after start date''
    (require (domainToToken s domainName' = 0) ''Lease already exists for this domain''
    (let s1 = s\<lparr>tokenIds := tokenIds s + 1\<rparr>;
         newTokenId = tokenIds s1;
         s2 = s1\<lparr>leases := (leases s1)(newTokenId :=
                 \<lparr>domainName = domainName', lessor = lessor', lessee = lessee',
                  startDate = startDate', endDate = endDate', priceAmount = priceAmount',
                  restrictions = restrictions', agreementIpfsHash = agreementIpfsHash',
                  active = True\<rparr>)\<rparr>;
         s3 = s2\<lparr>domainToToken := (domainToToken s2)(domainName' := newTokenId)\<rparr>
     in and_then (erc721_safeMint accepts lessee' newTokenId s3) (\<lambda>s4.
        and_then (setTokenURI newTokenId tokenURI' s4) (\<lambda>s5.
        Inr (s5, newTokenId))))))))"

definition terminateLease :: "address \<Rightarrow> uint256 \<Rightarrow> contract \<Rightarrow> contract tx" where
  "terminateLease sender tokenId s =
     require (exists_token s tokenId) ''Token does not exist''
    (require (sender = lessor (leases s tokenId) \<or> sender = ownable_owner s)
        ''Only lessor or owner can terminate''
    (require (active (leases s tokenId)) ''Lease already inactive''
    (Inr (s\<lparr>leases := (leases s)(tokenId := (leases s tokenId)\<lparr>active := False\<rparr>)\<rparr>))))"

definition transfer :: "address \<Rightarrow> address \<Rightarrow> uint256 \<Rightarrow> contract \<Rightarrow> contract tx" where
  \<comment> \<open>the override of _transfer\<close>
  "transfer from to tokenId s =
     and_then (super_transfer from to tokenId s) (\<lambda>s'.
       Inr (s'\<lparr>leases := (leases s')(tokenId := (leases s' tokenId)\<lparr>lessee := to\<rparr>)\<rparr>))"

definition setPlatformFee :: "address \<Rightarrow> uint256 \<Rightarrow> contract \<Rightarrow> contract tx" where
  "setPlatformFee sender fee s =
     onlyOwner sender s
    (require (fee \<le> 1000) ''Fee cannot exceed 10%''
    (Inr (s\<lparr>platformFee := fee\<rparr>)))"

definition setTreasury :: "address \<Rightarrow> address \<Rightarrow> contract \<Rightarrow> contract tx" where
  "setTreasury sender t s =
     onlyOwner sender s
    (require (t \<noteq> 0) ''Invalid treasury address''
    (Inr (s\<lparr>treasury := t\<rparr>)))"

definition withdrawFees :: "address \<Rightarrow> bool \<Rightarrow> contract \<Rightarrow> contract tx" where
  \<comment> \<open>\<open>success\<close> is the result of the call that sends the balance to the treasury\<close>
  "withdrawFees sender success s =
     onlyOwner sender s
    (require (funds s > 0) ''No balance to withdraw''
    (require success ''Withdrawal failed''
    (Inr (s\<lparr>funds := 0\<rparr>))))"

definition burn :: "uint256 \<Rightarrow> contract \<Rightarrow> contract tx" where
  \<comment> \<open>the override of _burn; internal, and no function of the contract calls it\<close>
  "burn tokenId s =
     and_then (super_burn tokenId s) (\<lambda>s'.
       let domain = domainName (leases s' tokenId);
           s1 = s'\<lparr>domainToToken := (domainToToken s')(domain := 0)\<rparr>
       in Inr (s1\<lparr>leases := (leases s1)(tokenId := zero_lease)\<rparr>))"

subsection \<open>What a caller can do\<close>

text \<open>
  The state-changing functions the deployed contract exposes: its own public functions
  and the public functions it inherits from the library (the transfers and approvals of
  ERC721, and Ownable's two ownership functions). Both transfers reach the contract's
  \<open>_transfer\<close> override. \<open>_burn\<close> is internal and nothing calls it, so no call burns a
  token. The booleans of \<open>MintLease\<close>, \<open>SafeTransferFrom\<close> and \<open>WithdrawFees\<close> are
  the answers of the external account that the call reaches. A transaction is one call,
  run to its end: calls that the reached account makes back into the contract before it
  answers are not modelled.
\<close>

datatype call =
    MintLease bool address address string uint256 uint256 uint256 string string string
  | TerminateLease uint256
  | TransferFrom address address uint256
  | SafeTransferFrom bool address address uint256
  | Approve address uint256
  | SetApprovalForAll address bool
  | SetPlatformFee uint256
  | SetTreasury address
  | WithdrawFees bool
  | TransferOwnership address
  | RenounceOwnership

definition transferFrom :: "address \<Rightarrow> address \<Rightarrow> address \<Rightarrow> uint256 \<Rightarrow> contract \<Rightarrow> contract tx" where
  \<comment> \<open>ERC721.transferFrom\<close>
  "transferFrom sender from to t s =
     and_then (isApprovedOrOwner s sender t) (\<lambda>ok.
       require ok ''ERC721: caller is not token owner or approved''
         (transfer from to t s))"

definition safeTransferFrom ::
  "address \<Rightarrow> bool \<Rightarrow> address \<Rightarrow> address \<Rightarrow> uint256 \<Rightarrow> contract \<Rightarrow> contract tx" where
  \<comment> \<open>ERC721.safeTransferFrom: the transfer, then the receiver check\<close>
  "safeTransferFrom sender accepts from to t s =
     and_then (isApprovedOrOwner s sender t) (\<lambda>ok.
       require ok ''ERC721: caller is not token owner or approved''
         (and_then (transfer from to t s) (\<lambda>s'.
            require accepts ''ERC721: transfer to non ERC721Receiver implementer'' (Inr s'))))"

definition approve :: "address \<Rightarrow> address \<Rightarrow> uint256 \<Rightarrow> contract \<Rightarrow> contract tx" where
  \<comment> \<open>ERC721.approve\<close>
  "approve sender to t s =
     and_then (ownerOf s t) (\<lambda>ow.
       require (to \<noteq> ow) ''ERC721: approval to current owner''
      (require (sender = ow \<or> erc_operatorApprovals s ow sender)
          ''ERC721: approve caller is not token owner or approved for all''
      (Inr (s\<lparr>erc_tokenApprovals := (erc_tokenApprovals s)(t := to)\<rparr>))))"

definition setApprovalForAll :: "address \<Rightarrow> address \<Rightarrow> bool \<Rightarrow> contract \<Rightarrow> contract tx" where
  \<comment> \<open>ERC721.setApprovalForAll\<close>
  "setApprovalForAll sender operator approved s =
     require (sender \<noteq> operator) ''ERC721: approve to caller''
       (Inr (s\<lparr>erc_operatorApprovals :=
               (erc_operatorApprovals s)(sender := (erc_operatorApprovals s sender)(operator := approved))\<rparr>))"

definition transferOwnership :: "address \<Rightarrow> address \<Rightarrow> contract \<Rightarrow> contract tx" where
  \<comment> \<open>Ownable.transferOwnership\<close>
  "transferOwnership sender newOwner s =
     onlyOwner sender s
    (require (newOwner \<noteq> 0) ''Ownable: new owner is the zero address''
    (Inr (s\<lparr>ownable_owner := newOwner\<rparr>)))"

definition renounceOwnership :: "address \<Rightarrow> contract \<Rightarrow> contract tx" where
  \<comment> \<open>Ownable.renounceOwnership\<close>
  "renounceOwnership sender s = onlyOwner sender s (Inr (s\<lparr>ownable_owner := 0\<rparr>))"

fun exec :: "address \<Rightarrow> call \<Rightarrow> contract \<Rightarrow> contract tx" where
  "exec sender (MintLease accepts lessor' lessee' dn sd ed pa re ah uri) s =
     and_then (mintLease sender accepts lessor' lessee' dn sd ed pa re ah uri s) (\<lambda>(s', _). Inr s')"
| "exec sender (TerminateLease t) s = terminateLease sender t s"
| "exec sender (TransferFrom from to t) s = transferFrom sender from to t s"
| "exec sender (SafeTransferFrom accepts from to t) s = safeTransferFrom sender accepts from to t s"
| "exec sender (Approve to t) s = approve sender to t s"
| "exec sender (SetApprovalForAll operator approved) s = setApprovalForAll sender operator approved s"
| "exec sender (SetPlatformFee fee) s = setPlatformFee sender fee s"
| "exec sender (SetTreasury t) s = setTreasury sender t s"
| "exec sender (WithdrawFees success) s = withdrawFees sender success s"
| "exec sender (TransferOwnership newOwner) s = transferOwnership sender newOwner s"
| "exec sender RenounceOwnership s = renounceOwnership sender s"

text \<open>The storage after a transaction: the old storage when the transaction reverts.\<close>

definition after :: "address \<Rightarrow> call \<Rightarrow> contract \<Rightarrow> contract" where
  "after sender c s = (case exec sender c s of Inl _ \<Rightarrow> s | Inr s' \<Rightarrow> s')"

fun run :: "contract \<Rightarrow> (address \<times> call) list \<Rightarrow> contract" where
  "run s [] = s"
| "run s ((sender, c) # cs) = run (after sender c s) cs"

text \<open>
  A reachable state: the storage after any sequence of transactions on a freshly
  deployed contract. Ether can reach the contract without a call of its own (it has no
  payable function), so the balance after deployment is arbitrary.
\<close>

definition reachable :: "contract \<Rightarrow> bool" where
  "reachable s = (\<exists>deployer t f cs. s = run ((constructor deployer t)\<lparr>funds := f\<rparr>) cs)"

subsection \<open>What one transaction changes\<close>

text \<open>
  Of the storage, the claims below read the counter, the lease records, the domain map
  and the token owners. A transaction that succeeds is a mint, a transfer, a
  termination, or leaves all four as they were.
\<close>

lemmas tx_defs = require_def and_then_def onlyOwner_def

lemma mintLease_Inr:
  assumes "mintLease sender accepts lo le dn sd ed pa re ah uri s = Inr (s', n)"
  shows "n = tokenIds s + 1 \<and> \<not> exists_token s n \<and> le \<noteq> 0 \<and> sd < ed \<and> domainToToken s dn = 0
     \<and> tokenIds s' = n
     \<and> leases s' = (leases s)(n := \<lparr>domainName = dn, lessor = lo, lessee = le,
                  startDate = sd, endDate = ed, priceAmount = pa,
                  restrictions = re, agreementIpfsHash = ah, active = True\<rparr>)
     \<and> domainToToken s' = (domainToToken s)(dn := n)
     \<and> erc_owners s' = (erc_owners s)(n := le)
     \<and> ownable_owner s' = ownable_owner s"
  using assms
  by (auto simp: mintLease_def tx_defs erc721_safeMint_def erc721_mint_def setTokenURI_def
      exists_token_def Let_def split: if_splits)

lemma mintLease_ok:
  assumes "sender = ownable_owner s" "dn \<noteq> []" "le \<noteq> 0" "sd < ed" "domainToToken s dn = 0"
    "\<not> exists_token s (tokenIds s + 1)" "a"
  shows "mintLease sender a lo le dn sd ed pa re ah uri s =
     Inr (s\<lparr>tokenIds := tokenIds s + 1,
            leases := (leases s)(tokenIds s + 1 :=
                 \<lparr>domainName = dn, lessor = lo, lessee = le,
                  startDate = sd, endDate = ed, priceAmount = pa,
                  restrictions = re, agreementIpfsHash = ah, active = True\<rparr>),
            domainToToken := (domainToToken s)(dn := tokenIds s + 1),
            erc_balances := (erc_balances s)(le := erc_balances s le + 1),
            erc_owners := (erc_owners s)(tokenIds s + 1 := le),
            erc_tokenURIs := (erc_tokenURIs s)(tokenIds s + 1 := uri)\<rparr>, tokenIds s + 1)"
  using assms
  by (simp add: mintLease_def onlyOwner_def require_def and_then_def erc721_safeMint_def
      erc721_mint_def setTokenURI_def exists_token_def Let_def)

lemma transfer_Inr:
  assumes "transfer from to t s = Inr s'"
  shows "erc_owners s t = from \<and> from \<noteq> 0 \<and> to \<noteq> 0
     \<and> tokenIds s' = tokenIds s
     \<and> leases s' = (leases s)(t := (leases s t)\<lparr>lessee := to\<rparr>)
     \<and> domainToToken s' = domainToToken s
     \<and> erc_owners s' = (erc_owners s)(t := to)
     \<and> ownable_owner s' = ownable_owner s"
  using assms
  by (auto simp: transfer_def super_transfer_def ownerOf_def tx_defs split: if_splits)

lemma terminateLease_Inr:
  assumes "terminateLease sender t s = Inr s'"
  shows "exists_token s t \<and> active (leases s t)
     \<and> (sender = lessor (leases s t) \<or> sender = ownable_owner s)
     \<and> s' = s\<lparr>leases := (leases s)(t := (leases s t)\<lparr>active := False\<rparr>)\<rparr>"
  using assms
  by (auto simp: terminateLease_def tx_defs split: if_splits)

definition core_same :: "contract \<Rightarrow> contract \<Rightarrow> bool" where
  "core_same s s' = (tokenIds s' = tokenIds s \<and> leases s' = leases s
      \<and> domainToToken s' = domainToToken s \<and> erc_owners s' = erc_owners s)"

lemma exec_cases:
  assumes "exec sender c s = Inr s'"
  shows "core_same s s'
     \<or> (\<exists>t. c = TerminateLease t \<and> terminateLease sender t s = Inr s')
     \<or> (\<exists>from to t. transfer from to t s = Inr s')
     \<or> (\<exists>a lo le dn sd ed pa re ah uri n. mintLease sender a lo le dn sd ed pa re ah uri s = Inr (s', n))"
proof (cases c)
  case (MintLease a lo le dn sd ed pa re ah uri)
  then show ?thesis using assms
    by (auto simp: and_then_def split: sum.splits)
next
  case (TerminateLease t)
  then show ?thesis using assms by simp
next
  case (TransferFrom fr dst t)
  then show ?thesis using assms
    by (auto simp: transferFrom_def tx_defs split: sum.splits if_splits)
next
  case (SafeTransferFrom a fr dst t)
  then show ?thesis using assms
    by (auto simp: safeTransferFrom_def tx_defs split: sum.splits if_splits)
next
  case (Approve dst t)
  then show ?thesis using assms
    by (auto simp: approve_def tx_defs core_same_def split: sum.splits if_splits)
next
  case (SetApprovalForAll op ap)
  then show ?thesis using assms
    by (auto simp: setApprovalForAll_def tx_defs core_same_def split: sum.splits if_splits)
next
  case (SetPlatformFee fee)
  then show ?thesis using assms
    by (auto simp: setPlatformFee_def tx_defs core_same_def split: sum.splits if_splits)
next
  case (SetTreasury t)
  then show ?thesis using assms
    by (auto simp: setTreasury_def tx_defs core_same_def split: sum.splits if_splits)
next
  case (WithdrawFees ok)
  then show ?thesis using assms
    by (auto simp: withdrawFees_def tx_defs core_same_def split: sum.splits if_splits)
next
  case (TransferOwnership n)
  then show ?thesis using assms
    by (auto simp: transferOwnership_def tx_defs core_same_def split: sum.splits if_splits)
next
  case RenounceOwnership
  then show ?thesis using assms
    by (auto simp: renounceOwnership_def tx_defs core_same_def split: sum.splits if_splits)
qed

subsection \<open>A deployed contract with one lease\<close>

text \<open>
  Account 1 deploys the contract and mints a lease of \<open>a.io\<close> from lessor 5 to
  lessee 7; then the lessor terminates it, or the lessee transfers it to account 9.
\<close>

definition demo_contract :: contract where
  "demo_contract = run ((constructor 1 2)\<lparr>funds := 0\<rparr>)
     [(1, MintLease True 5 7 ''a.io'' 10 20 100 ''none'' ''Qm'' ''uri'')]"

definition demo_terminated :: contract where
  "demo_terminated = after 5 (TerminateLease 1) demo_contract"

definition demo_transferred :: contract where
  "demo_transferred = run ((constructor 1 2)\<lparr>funds := 0\<rparr>)
     [(1, MintLease True 5 7 ''a.io'' 10 20 100 ''none'' ''Qm'' ''uri''), (7, TransferFrom 7 9 1)]"

lemma demo_reachable: "reachable demo_contract"
  unfolding reachable_def demo_contract_def by blast

lemma demo_contract_eq:
  "demo_contract = (constructor 1 2)\<lparr>tokenIds := 1,
      leases := (\<lambda>_. zero_lease)(1 := \<lparr>domainName = ''a.io'', lessor = 5, lessee = 7,
                  startDate = 10, endDate = 20, priceAmount = 100,
                  restrictions = ''none'', agreementIpfsHash = ''Qm'', active = True\<rparr>),
      domainToToken := (\<lambda>_. 0)(''a.io'' := 1),
      erc_balances := (\<lambda>_. 0)(7 := 1),
      erc_owners := (\<lambda>_. 0)(1 := 7),
      erc_tokenURIs := (\<lambda>_. [])(1 := ''uri'')\<rparr>"
proof -
  let ?s = "(constructor 1 2)\<lparr>funds := 0\<rparr>"
  have "mintLease 1 True 5 7 ''a.io'' 10 20 100 ''none'' ''Qm'' ''uri'' ?s = Inr (
     ?s\<lparr>tokenIds := tokenIds ?s + 1,
            leases := (leases ?s)(tokenIds ?s + 1 :=
                 \<lparr>domainName = ''a.io'', lessor = 5, lessee = 7,
                  startDate = 10, endDate = 20, priceAmount = 100,
                  restrictions = ''none'', agreementIpfsHash = ''Qm'', active = True\<rparr>),
            domainToToken := (domainToToken ?s)(''a.io'' := tokenIds ?s + 1),
            erc_balances := (erc_balances ?s)(7 := erc_balances ?s 7 + 1),
            erc_owners := (erc_owners ?s)(tokenIds ?s + 1 := 7),
            erc_tokenURIs := (erc_tokenURIs ?s)(tokenIds ?s + 1 := ''uri'')\<rparr>, tokenIds ?s + 1)"
    by (rule mintLease_ok) (simp_all add: constructor_def exists_token_def)
  then show ?thesis
    by (simp add: demo_contract_def after_def and_then_def constructor_def)
qed

lemma demo_terminate: "terminateLease 5 1 demo_contract = Inr demo_terminated"
  by (simp add: demo_terminated_def after_def terminateLease_def require_def exists_token_def
      demo_contract_eq constructor_def)

lemma demo_transferred_reachable: "reachable demo_transferred"
  unfolding reachable_def demo_transferred_def by blast

lemma demo_transferred_eq: "demo_transferred = after 7 (TransferFrom 7 9 1) demo_contract"
  by (simp add: demo_transferred_def demo_contract_def)

lemma demo_transferred_owner:
  "exists_token demo_transferred 1 \<and> erc_owners demo_transferred 1 = 9"
  by (simp add: demo_transferred_eq after_def transferFrom_def transfer_def super_transfer_def
      isApprovedOrOwner_def ownerOf_def require_def and_then_def exists_token_def
      demo_contract_eq constructor_def)

subsection \<open>One token per domain\<close>

text \<open>
  A domain is bound to a token when the token exists and its lease record names the
  domain. The invariant behind uniqueness: the domain map sends the domain of every
  existing token back to that token. Token ids come from a counter that starts at 1 and
  wraps around after \<open>2 ^ 256 - 1\<close> mints; the id 0, which the domain map reads as
  "no token", is minted only then, when every other id is taken, and every later mint
  reverts in the library's \<open>_mint\<close>. The second and third part of the invariant
  record this.
\<close>

definition bound :: "contract \<Rightarrow> string \<Rightarrow> uint256 \<Rightarrow> bool" where
  "bound s d t = (exists_token s t \<and> domainName (leases s t) = d)"

definition binding_inv :: "contract \<Rightarrow> bool" where
  "binding_inv s =
     ((\<forall>t. exists_token s t \<longrightarrow> domainToToken s (domainName (leases s t)) = t)
    \<and> (exists_token s 0 \<longrightarrow> (\<forall>t. exists_token s t))
    \<and> (\<forall>t. t \<noteq> 0 \<and> t \<le> tokenIds s \<longrightarrow> exists_token s t))"

lemma word_le_Suc_cases:
  fixes t c :: uint256
  assumes "c + 1 \<noteq> 0" "t \<le> c + 1"
  shows "t \<le> c \<or> t = c + 1"
proof -
  have "unat (1 + c) = Suc (unat c)" using assms(1) by (intro unatSuc) (simp add: add.commute)
  then have "unat (c + 1) = Suc (unat c)" by (simp add: add.commute)
  then have "unat t \<le> Suc (unat c)" using assms(2) by (simp add: word_le_nat_alt)
  then have "unat t \<le> unat c \<or> unat t = unat (c + 1)"
    using \<open>unat (c + 1) = Suc (unat c)\<close> by linarith
  then show ?thesis by (simp add: word_le_nat_alt word_unat_eq_iff)
qed

lemma binding_inv_constructor: "binding_inv ((constructor d t)\<lparr>funds := f\<rparr>)"
  by (simp add: binding_inv_def constructor_def exists_token_def)

lemma binding_inv_mint:
  assumes inv: "binding_inv s"
    and m: "mintLease sender a lo le dn sd ed pa re ah uri s = Inr (s', n)"
  shows "binding_inv s'"
proof -
  note f = mintLease_Inr [OF m]
  from f have n: "n = tokenIds s + 1" and fresh: "\<not> exists_token s n" and le: "le \<noteq> 0"
    and free: "domainToToken s dn = 0" by blast+
  have ex: "exists_token s' t = (t = n \<or> exists_token s t)" for t
    using f by (simp add: exists_token_def)
  have no0: "\<not> exists_token s 0"
    using inv fresh unfolding binding_inv_def by blast
  have nodn: "domainName (leases s t) \<noteq> dn" if "exists_token s t" for t
  proof
    assume "domainName (leases s t) = dn"
    with inv that have "domainToToken s dn = t" by (auto simp: binding_inv_def)
    with free that no0 show False by simp
  qed
  have 1: "\<forall>t. exists_token s' t \<longrightarrow> domainToToken s' (domainName (leases s' t)) = t"
  proof (intro allI impI)
    fix t assume "exists_token s' t"
    then consider "t = n" | "t \<noteq> n" "exists_token s t" by (auto simp: ex)
    then show "domainToToken s' (domainName (leases s' t)) = t"
    proof cases
      case 1 then show ?thesis using f by simp
    next
      case 2
      with inv have "domainToToken s (domainName (leases s t)) = t" by (simp add: binding_inv_def)
      with 2 nodn [of t] show ?thesis using f by simp
    qed
  qed
  have 3: "\<forall>t. t \<noteq> 0 \<and> t \<le> tokenIds s' \<longrightarrow> exists_token s' t"
  proof (intro allI impI)
    fix t assume t: "t \<noteq> 0 \<and> t \<le> tokenIds s'"
    show "exists_token s' t"
    proof (cases "n = 0")
      case True
      with t f show ?thesis by simp
    next
      case False
      with t f n have "t \<le> tokenIds s \<or> t = n"
        using word_le_Suc_cases [of "tokenIds s" t] by simp
      with t inv show ?thesis by (auto simp: ex binding_inv_def)
    qed
  qed
  have 2: "exists_token s' 0 \<longrightarrow> (\<forall>t. exists_token s' t)"
  proof (intro impI allI)
    fix t assume "exists_token s' 0"
    with no0 have n0: "n = 0" by (simp add: ex)
    show "exists_token s' t"
    proof (cases "t = 0")
      case True then show ?thesis using n0 by (simp add: ex)
    next
      case False
      have "tokenIds s = - 1" using n n0 by (simp add: eq_neg_iff_add_eq_0)
      then have "t \<le> tokenIds s" by simp
      with False inv show ?thesis by (auto simp: ex binding_inv_def)
    qed
  qed
  from 1 2 3 show ?thesis unfolding binding_inv_def by blast
qed

lemma binding_inv_transfer:
  assumes inv: "binding_inv s" and m: "transfer fr dst t s = Inr s'"
  shows "binding_inv s'"
proof -
  note f = transfer_Inr [OF m]
  have ex: "exists_token s' u = exists_token s u" for u
    using f by (auto simp: exists_token_def)
  have dn: "domainName (leases s' u) = domainName (leases s u)" for u
    using f by simp
  show ?thesis using inv f by (simp add: binding_inv_def ex dn)
qed

lemma binding_inv_terminate:
  assumes inv: "binding_inv s" and m: "terminateLease sender t s = Inr s'"
  shows "binding_inv s'"
proof -
  note f = terminateLease_Inr [OF m]
  have ex: "exists_token s' u = exists_token s u" for u
    using f by (auto simp: exists_token_def)
  have dn: "domainName (leases s' u) = domainName (leases s u)" for u
    using f by simp
  have "domainToToken s' = domainToToken s" "tokenIds s' = tokenIds s" using f by simp_all
  then show ?thesis using inv by (simp add: binding_inv_def ex dn)
qed

lemma binding_inv_same:
  assumes "binding_inv s" "core_same s s'"
  shows "binding_inv s'"
  using assms by (simp add: binding_inv_def core_same_def exists_token_def)

lemma binding_inv_exec:
  assumes "binding_inv s" "exec sender c s = Inr s'"
  shows "binding_inv s'"
  using exec_cases [OF assms(2)] assms(1)
  by (auto intro: binding_inv_mint binding_inv_transfer binding_inv_terminate binding_inv_same)

lemma binding_inv_after: "binding_inv s \<Longrightarrow> binding_inv (after sender c s)"
  by (auto simp: after_def split: sum.splits intro: binding_inv_exec)

lemma binding_inv_run: "binding_inv s \<Longrightarrow> binding_inv (run s cs)"
proof (induction cs arbitrary: s)
  case Nil
  then show ?case by simp
next
  case (Cons x cs)
  obtain sender c where x: "x = (sender, c)" by (cases x)
  from Cons.prems have "binding_inv (after sender c s)" by (rule binding_inv_after)
  then show ?case using Cons.IH x by simp
qed

lemma binding_inv_reachable: "reachable s \<Longrightarrow> binding_inv s"
  by (auto simp: reachable_def intro: binding_inv_run binding_inv_constructor)

lemma bound_token: "binding_inv s \<Longrightarrow> bound s d t \<Longrightarrow> domainToToken s d = t"
  by (auto simp: binding_inv_def bound_def)

lemma bound_unique: "binding_inv s \<Longrightarrow> bound s d t \<Longrightarrow> bound s d u \<Longrightarrow> t = u"
  using bound_token by metis

lemma mintLease_bound_reverts:
  assumes inv: "binding_inv s" and b: "bound s d t"
  shows "\<exists>msg. mintLease sender a lo le d sd ed pa re ah uri s = Inl msg"
proof (rule ccontr)
  assume "\<not> ?thesis"
  then obtain r where m: "mintLease sender a lo le d sd ed pa re ah uri s = Inr r"
    by (cases "mintLease sender a lo le d sd ed pa re ah uri s") auto
  obtain s' n where r: "r = (s', n)" by (cases r)
  note f = mintLease_Inr [OF m [unfolded r]]
  from f have fresh: "\<not> exists_token s n" and free: "domainToToken s d = 0" by blast+
  from bound_token [OF inv b] free have "t = 0" by simp
  with b have "exists_token s 0" by (simp add: bound_def)
  with inv have "exists_token s n" unfolding binding_inv_def by blast
  with fresh show False by simp
qed

lemma after_mint_bound:
  assumes inv: "binding_inv s" and b: "bound s d t"
  shows "after sender (MintLease a lo le d sd ed pa re ah uri) s = s"
  using mintLease_bound_reverts [OF inv b, of sender a lo le sd ed pa re ah uri]
  by (auto simp: after_def and_then_def)

lemma bound_exec:
  assumes inv: "binding_inv s" and b: "bound s d t" and e: "exec sender c s = Inr s'"
  shows "bound s' d t \<and> domainToToken s' d = domainToToken s d"
proof -
  from exec_cases [OF e] consider
      "core_same s s'"
    | u where "terminateLease sender u s = Inr s'"
    | fr dst u where "transfer fr dst u s = Inr s'"
    | a lo le dn sd ed pa re ah uri n where "mintLease sender a lo le dn sd ed pa re ah uri s = Inr (s', n)"
    by blast
  then show ?thesis
  proof cases
    case 1
    with b show ?thesis by (simp add: core_same_def bound_def exists_token_def)
  next
    case 2
    from terminateLease_Inr [OF 2] b show ?thesis
      by (auto simp: bound_def exists_token_def)
  next
    case 3
    from transfer_Inr [OF 3] b show ?thesis
      by (auto simp: bound_def exists_token_def)
  next
    case 4
    note f = mintLease_Inr [OF 4]
    from f have fresh: "\<not> exists_token s n" by blast
    with b have tn: "t \<noteq> n" by (auto simp: bound_def)
    have "dn \<noteq> d"
    proof
      assume "dn = d"
      with mintLease_bound_reverts [OF inv b, of sender a lo le sd ed pa re ah uri] 4
      show False by auto
    qed
    with f b tn show ?thesis by (auto simp: bound_def exists_token_def)
  qed
qed

lemma bound_after:
  assumes "binding_inv s" "bound s d t"
  shows "bound (after sender c s) d t \<and> domainToToken (after sender c s) d = domainToToken s d"
proof (cases "exec sender c s")
  case (Inl e)
  with assms show ?thesis by (simp add: after_def)
next
  case (Inr s')
  with bound_exec [OF assms Inr] show ?thesis by (simp add: after_def)
qed

lemma burn_clears:
  assumes inv: "binding_inv s" and ex: "exists_token s t"
  shows "\<exists>s'. burn t s = Inr s' \<and> \<not> exists_token s' t
           \<and> domainToToken s' (domainName (leases s t)) = 0
           \<and> leases s' t = zero_lease
           \<and> (\<forall>d. d \<noteq> domainName (leases s t) \<longrightarrow> domainToToken s' d = domainToToken s d)
           \<and> (\<forall>u. u \<noteq> t \<longrightarrow> exists_token s' u = exists_token s u \<and> leases s' u = leases s u)"
  using ex
  by (auto simp: burn_def super_burn_def ownerOf_def require_def and_then_def exists_token_def Let_def)

lemma demo_bound: "bound demo_contract ''a.io'' 1"
  by (simp add: demo_contract_eq bound_def exists_token_def constructor_def)

text \<open>
  Claim C1. In every reachable state each domain name is bound to at most one existing
  token, and the domain map holds that token. \<open>mintLease\<close> for a domain that has a
  bound token (or a non-zero entry in the domain map) reverts, and the storage stays as
  it was. No transaction clears or changes the binding of a bound domain; \<open>_burn\<close> of
  an existing token removes the token, clears the entry of its domain and leaves the
  entries of all other domains alone. (\<open>_burn\<close> is internal and no function of the
  contract calls it: in the deployed contract a binding, once made, stays.)
\<close>

theorem lease_binding_unique:
  assumes "reachable s"
  shows "(\<forall>d t u. bound s d t \<and> bound s d u \<longrightarrow> t = u)
       \<and> (\<forall>d t. bound s d t \<longrightarrow> domainToToken s d = t)
       \<and> (\<forall>d t sender a lo le sd ed pa re ah uri. bound s d t \<or> domainToToken s d \<noteq> 0 \<longrightarrow>
            (\<exists>msg. mintLease sender a lo le d sd ed pa re ah uri s = Inl msg)
            \<and> after sender (MintLease a lo le d sd ed pa re ah uri) s = s)
       \<and> (\<forall>d t sender c. bound s d t \<longrightarrow>
            bound (after sender c s) d t \<and> domainToToken (after sender c s) d = domainToToken s d)
       \<and> (\<forall>t. exists_token s t \<longrightarrow>
            (\<exists>s'. burn t s = Inr s' \<and> \<not> exists_token s' t
               \<and> domainToToken s' (domainName (leases s t)) = 0
               \<and> (\<forall>d. d \<noteq> domainName (leases s t) \<longrightarrow> domainToToken s' d = domainToToken s d)))"
proof -
  have inv: "binding_inv s" using assms by (rule binding_inv_reachable)
  have 1: "\<forall>d t u. bound s d t \<and> bound s d u \<longrightarrow> t = u"
    using bound_unique [OF inv] by blast
  have 2: "\<forall>d t. bound s d t \<longrightarrow> domainToToken s d = t"
    using bound_token [OF inv] by blast
  have 3: "(\<exists>msg. mintLease sender a lo le d sd ed pa re ah uri s = Inl msg)
            \<and> after sender (MintLease a lo le d sd ed pa re ah uri) s = s"
    if "bound s d t \<or> domainToToken s d \<noteq> 0" for d t sender a lo le sd ed pa re ah uri
  proof (cases "domainToToken s d \<noteq> 0")
    case True
    then have "mintLease sender a lo le d sd ed pa re ah uri s \<in> range Inl"
      by (auto simp: mintLease_def require_def onlyOwner_def)
    then show ?thesis by (auto simp: after_def and_then_def)
  next
    case False
    with that have b: "bound s d t" by simp
    from mintLease_bound_reverts [OF inv b] after_mint_bound [OF inv b] show ?thesis by blast
  qed
  have 4: "\<forall>d t sender c. bound s d t \<longrightarrow>
            bound (after sender c s) d t \<and> domainToToken (after sender c s) d = domainToToken s d"
    using bound_after [OF inv] by blast
  have 5: "\<forall>t. exists_token s t \<longrightarrow>
            (\<exists>s'. burn t s = Inr s' \<and> \<not> exists_token s' t
               \<and> domainToToken s' (domainName (leases s t)) = 0
               \<and> (\<forall>d. d \<noteq> domainName (leases s t) \<longrightarrow> domainToToken s' d = domainToToken s d))"
    using burn_clears [OF inv] by blast
  from 1 2 3 4 5 show ?thesis by blast
qed

theorem lease_binding_unique_witness:
  "reachable demo_contract \<and> bound demo_contract ''a.io'' 1
   \<and> domainToToken demo_contract ''a.io'' = 1
   \<and> (\<exists>msg. mintLease 1 True 5 9 ''a.io'' 30 40 100 ''none'' ''Qm'' ''uri'' demo_contract = Inl msg)
   \<and> after 1 (MintLease True 5 9 ''a.io'' 30 40 100 ''none'' ''Qm'' ''uri'') demo_contract = demo_contract
   \<and> bound (after 7 (TransferFrom 7 9 1) demo_contract) ''a.io'' 1
   \<and> (\<exists>s'. burn 1 demo_contract = Inr s' \<and> \<not> exists_token s' 1 \<and> domainToToken s' ''a.io'' = 0)"
proof -
  have d: "domainName (leases demo_contract 1) = ''a.io''" and e: "exists_token demo_contract 1"
    using demo_bound by (simp_all add: bound_def)
  note t = lease_binding_unique [OF demo_reachable]
  note t2 = t [THEN conjunct2, THEN conjunct1, rule_format, OF demo_bound]
  note t3 = t [THEN conjunct2, THEN conjunct2, THEN conjunct1, rule_format,
      OF disjI1, OF demo_bound]
  note t4 = t [THEN conjunct2, THEN conjunct2, THEN conjunct2, THEN conjunct1, rule_format,
      OF demo_bound]
  note t5 = t [THEN conjunct2, THEN conjunct2, THEN conjunct2, THEN conjunct2, rule_format, OF e]
  from t5 obtain s' where "burn 1 demo_contract = Inr s' \<and> \<not> exists_token s' 1
      \<and> domainToToken s' ''a.io'' = 0"
    unfolding d by blast
  then have b: "\<exists>s'. burn 1 demo_contract = Inr s' \<and> \<not> exists_token s' 1
      \<and> domainToToken s' ''a.io'' = 0" ..
  have m: "\<exists>msg. mintLease 1 True 5 9 ''a.io'' 30 40 100 ''none'' ''Qm'' ''uri'' demo_contract = Inl msg"
    using t3 by blast
  have u: "after 1 (MintLease True 5 9 ''a.io'' 30 40 100 ''none'' ''Qm'' ''uri'') demo_contract
      = demo_contract"
    using t3 by blast
  have k: "bound (after 7 (TransferFrom 7 9 1) demo_contract) ''a.io'' 1"
    using t4 by blast
  from demo_reachable demo_bound t2 m u k b show ?thesis by simp
qed

subsection \<open>A terminated lease stays terminated\<close>

text \<open>
  A lease is terminated when its token exists and its record is not active. (The record
  of a token id that was never minted is the zero value, also not active; minting is what
  makes it active, and it is no terminated lease.)
\<close>

definition terminated :: "contract \<Rightarrow> uint256 \<Rightarrow> bool" where
  "terminated s t = (exists_token s t \<and> \<not> active (leases s t))"

lemma terminated_exec:
  assumes b: "terminated s t" and e: "exec sender c s = Inr s'"
  shows "terminated s' t"
proof -
  from exec_cases [OF e] consider
      "core_same s s'"
    | u where "terminateLease sender u s = Inr s'"
    | fr dst u where "transfer fr dst u s = Inr s'"
    | a lo le dn sd ed pa re ah uri n where "mintLease sender a lo le dn sd ed pa re ah uri s = Inr (s', n)"
    by blast
  then show ?thesis
  proof cases
    case 1
    with b show ?thesis by (simp add: core_same_def terminated_def exists_token_def)
  next
    case 2
    from terminateLease_Inr [OF 2] b show ?thesis
      by (auto simp: terminated_def exists_token_def)
  next
    case 3
    from transfer_Inr [OF 3] b show ?thesis
      by (auto simp: terminated_def exists_token_def)
  next
    case 4
    note f = mintLease_Inr [OF 4]
    from f have fresh: "\<not> exists_token s n" by blast
    with b have tn: "t \<noteq> n" by (auto simp: terminated_def)
    with f b show ?thesis by (auto simp: terminated_def exists_token_def)
  qed
qed

lemma terminated_after: "terminated s t \<Longrightarrow> terminated (after sender c s) t"
  by (cases "exec sender c s") (auto simp: after_def intro: terminated_exec)

lemma terminated_run: "terminated s t \<Longrightarrow> terminated (run s cs) t"
proof (induction cs arbitrary: s)
  case Nil
  then show ?case by simp
next
  case (Cons x cs)
  obtain sender c where x: "x = (sender, c)" by (cases x)
  from Cons.prems have "terminated (after sender c s) t" by (rule terminated_after)
  then show ?case using Cons.IH x by simp
qed

lemma terminateLease_terminated:
  assumes "terminated s t"
  shows "(\<exists>msg. terminateLease sender t s = Inl msg)
       \<and> (sender = lessor (leases s t) \<or> sender = ownable_owner s \<longrightarrow>
            terminateLease sender t s = Inl ''Lease already inactive'')
       \<and> after sender (TerminateLease t) s = s"
  using assms by (auto simp: terminated_def terminateLease_def require_def after_def)

lemma terminateLease_makes_terminated:
  assumes "terminateLease sender t s = Inr s'"
  shows "terminated s' t \<and> terminateLease sender t s' = Inl ''Lease already inactive''"
  using terminateLease_Inr [OF assms]
  by (auto simp: terminated_def exists_token_def terminateLease_def require_def)

text \<open>
  Claim C6. A successful \<open>terminateLease\<close> leaves the lease terminated, and the same
  caller's next \<open>terminateLease\<close> reverts with "Lease already inactive". A terminated
  lease is terminated after every sequence of transactions; on it, \<open>terminateLease\<close> by
  any caller reverts and leaves the storage as it was, and for a caller who may terminate
  (the lessor or the contract's owner) the message is "Lease already inactive".
\<close>

theorem lease_termination_final:
  "(terminateLease sender t s = Inr s' \<longrightarrow>
       terminated s' t \<and> terminateLease sender t s' = Inl ''Lease already inactive'')
 \<and> (terminated s t \<longrightarrow>
       (\<forall>cs. terminated (run s cs) t)
     \<and> (\<forall>caller. (\<exists>msg. terminateLease caller t s = Inl msg)
            \<and> after caller (TerminateLease t) s = s
            \<and> (caller = lessor (leases s t) \<or> caller = ownable_owner s \<longrightarrow>
                 terminateLease caller t s = Inl ''Lease already inactive'')))"
  using terminateLease_makes_terminated [of sender t s s'] terminated_run [of s t]
    terminateLease_terminated [of s t]
  by blast

theorem lease_termination_final_witness:
  "terminateLease 5 1 demo_contract = Inr demo_terminated
 \<and> terminated demo_terminated 1
 \<and> terminateLease 5 1 demo_terminated = Inl ''Lease already inactive''
 \<and> terminated (run demo_terminated [(7, TransferFrom 7 9 1), (5, TerminateLease 1)]) 1
 \<and> after 1 (TerminateLease 1) demo_terminated = demo_terminated"
proof -
  note a = lease_termination_final [of 5 1 demo_contract demo_terminated, THEN conjunct1,
      rule_format, OF demo_terminate]
  note b = lease_termination_final [of 5 1 demo_terminated, THEN conjunct2, rule_format,
      OF a [THEN conjunct1]]
  have c: "terminated (run demo_terminated [(7, TransferFrom 7 9 1), (5, TerminateLease 1)]) 1"
    using b by blast
  have d: "after 1 (TerminateLease 1) demo_terminated = demo_terminated"
    using b by blast
  from demo_terminate a c d show ?thesis by simp
qed

subsection \<open>The end of a lease is after its start\<close>

definition dates_inv :: "contract \<Rightarrow> bool" where
  "dates_inv s = (\<forall>t. exists_token s t \<longrightarrow> startDate (leases s t) < endDate (leases s t))"

lemma dates_inv_exec:
  assumes inv: "dates_inv s" and e: "exec sender c s = Inr s'"
  shows "dates_inv s'"
proof -
  from exec_cases [OF e] consider
      "core_same s s'"
    | u where "terminateLease sender u s = Inr s'"
    | fr dst u where "transfer fr dst u s = Inr s'"
    | a lo le dn sd ed pa re ah uri n where "mintLease sender a lo le dn sd ed pa re ah uri s = Inr (s', n)"
    by blast
  then show ?thesis
  proof cases
    case 1
    with inv show ?thesis by (simp add: core_same_def dates_inv_def exists_token_def)
  next
    case 2
    from terminateLease_Inr [OF 2] inv show ?thesis
      by (auto simp: dates_inv_def exists_token_def)
  next
    case 3
    from transfer_Inr [OF 3] inv show ?thesis
      by (auto simp: dates_inv_def exists_token_def)
  next
    case 4
    from mintLease_Inr [OF 4] inv show ?thesis
      by (auto simp: dates_inv_def exists_token_def)
  qed
qed

lemma dates_inv_run: "dates_inv s \<Longrightarrow> dates_inv (run s cs)"
proof (induction cs arbitrary: s)
  case Nil
  then show ?case by simp
next
  case (Cons x cs)
  obtain sender c where x: "x = (sender, c)" by (cases x)
  from Cons.prems have "dates_inv (after sender c s)"
    by (cases "exec sender c s") (auto simp: after_def intro: dates_inv_exec)
  then show ?case using Cons.IH x by simp
qed

lemma dates_inv_reachable: "reachable s \<Longrightarrow> dates_inv s"
  by (auto simp: reachable_def intro!: dates_inv_run)
     (simp add: dates_inv_def constructor_def exists_token_def)

lemma mintLease_bad_dates:
  assumes "ed \<le> sd"
  shows "(\<exists>msg. mintLease sender a lo le dn sd ed pa re ah uri s = Inl msg)
       \<and> after sender (MintLease a lo le dn sd ed pa re ah uri) s = s
       \<and> (sender = ownable_owner s \<and> dn \<noteq> [] \<and> le \<noteq> 0 \<longrightarrow>
            mintLease sender a lo le dn sd ed pa re ah uri s = Inl ''End date must be after start date'')"
proof -
  from assms have "\<not> sd < ed" by simp
  then have *: "mintLease sender a lo le dn sd ed pa re ah uri s \<in> range Inl"
     and **: "sender = ownable_owner s \<and> dn \<noteq> [] \<and> le \<noteq> 0 \<longrightarrow>
            mintLease sender a lo le dn sd ed pa re ah uri s = Inl ''End date must be after start date''"
    by (auto simp: mintLease_def require_def onlyOwner_def)
  from * ** show ?thesis by (auto simp: after_def and_then_def)
qed

text \<open>
  Claim C7. In every reachable state the record of every existing token has its end date
  after its start date. \<open>mintLease\<close> with an end date not after the start date reverts
  and leaves the storage as it was; when the earlier checks pass (the caller is the
  owner, the domain name is not empty, the lessee is not the zero address) the message is
  "End date must be after start date".
\<close>

theorem lease_dates_ordered:
  assumes "reachable s"
  shows "(\<forall>t. exists_token s t \<longrightarrow> startDate (leases s t) < endDate (leases s t))
       \<and> (\<forall>sender a lo le dn sd ed pa re ah uri. ed \<le> sd \<longrightarrow>
            (\<exists>msg. mintLease sender a lo le dn sd ed pa re ah uri s = Inl msg)
          \<and> after sender (MintLease a lo le dn sd ed pa re ah uri) s = s
          \<and> (sender = ownable_owner s \<and> dn \<noteq> [] \<and> le \<noteq> 0 \<longrightarrow>
               mintLease sender a lo le dn sd ed pa re ah uri s = Inl ''End date must be after start date''))"
  using dates_inv_reachable [OF assms] mintLease_bad_dates [of _ _ _ _ _ _ _ _ _ _ _ s]
  unfolding dates_inv_def by blast

theorem lease_dates_ordered_witness:
  "reachable demo_contract \<and> exists_token demo_contract 1
 \<and> startDate (leases demo_contract 1) < endDate (leases demo_contract 1)
 \<and> (20 :: uint256) \<le> 20
 \<and> mintLease 1 True 5 7 ''b.io'' 20 20 100 ''none'' ''Qm'' ''uri'' demo_contract
      = Inl ''End date must be after start date''
 \<and> after 1 (MintLease True 5 7 ''b.io'' 20 20 100 ''none'' ''Qm'' ''uri'') demo_contract = demo_contract"
proof -
  have e: "exists_token demo_contract 1"
    by (simp add: demo_contract_eq exists_token_def constructor_def)
  have o: "1 = ownable_owner demo_contract \<and> ''b.io'' \<noteq> [] \<and> (7 :: address) \<noteq> 0"
    by (simp add: demo_contract_eq constructor_def)
  have d: "(20 :: uint256) \<le> 20" by simp
  note a = lease_dates_ordered [OF demo_reachable, THEN conjunct1, rule_format, OF e]
  note b = lease_dates_ordered [OF demo_reachable, THEN conjunct2, rule_format, OF d]
  have m: "mintLease 1 True 5 7 ''b.io'' 20 20 100 ''none'' ''Qm'' ''uri'' demo_contract
      = Inl ''End date must be after start date''"
    using b o by blast
  have u: "after 1 (MintLease True 5 7 ''b.io'' 20 20 100 ''none'' ''Qm'' ''uri'') demo_contract
      = demo_contract"
    using b by blast
  from demo_reachable e a d m u show ?thesis by simp
qed

subsection \<open>The lessee is the token's owner\<close>

definition lessee_inv :: "contract \<Rightarrow> bool" where
  "lessee_inv s = (\<forall>t. exists_token s t \<longrightarrow> lessee (leases s t) = erc_owners s t)"

lemma lessee_inv_exec:
  assumes inv: "lessee_inv s" and e: "exec sender c s = Inr s'"
  shows "lessee_inv s'"
proof -
  from exec_cases [OF e] consider
      "core_same s s'"
    | u where "terminateLease sender u s = Inr s'"
    | fr dst u where "transfer fr dst u s = Inr s'"
    | a lo le dn sd ed pa re ah uri n where "mintLease sender a lo le dn sd ed pa re ah uri s = Inr (s', n)"
    by blast
  then show ?thesis
  proof cases
    case 1
    with inv show ?thesis by (simp add: core_same_def lessee_inv_def exists_token_def)
  next
    case 2
    from terminateLease_Inr [OF 2] inv show ?thesis
      by (auto simp: lessee_inv_def exists_token_def)
  next
    case 3
    from transfer_Inr [OF 3] inv show ?thesis
      by (auto simp: lessee_inv_def exists_token_def)
  next
    case 4
    from mintLease_Inr [OF 4] inv show ?thesis
      by (auto simp: lessee_inv_def exists_token_def)
  qed
qed

lemma lessee_inv_run: "lessee_inv s \<Longrightarrow> lessee_inv (run s cs)"
proof (induction cs arbitrary: s)
  case Nil
  then show ?case by simp
next
  case (Cons x cs)
  obtain sender c where x: "x = (sender, c)" by (cases x)
  from Cons.prems have "lessee_inv (after sender c s)"
    by (cases "exec sender c s") (auto simp: after_def intro: lessee_inv_exec)
  then show ?case using Cons.IH x by simp
qed

lemma lessee_inv_reachable: "reachable s \<Longrightarrow> lessee_inv s"
  by (auto simp: reachable_def intro!: lessee_inv_run)
     (simp add: lessee_inv_def constructor_def exists_token_def)

lemma mint_to_lessee:
  assumes "mintLease sender a lo le dn sd ed pa re ah uri s = Inr (s', n)"
  shows "exists_token s' n \<and> erc_owners s' n = le \<and> lessee (leases s' n) = le"
  using mintLease_Inr [OF assms] by (simp add: exists_token_def)

lemma transfer_to_recipient:
  assumes "transfer fr dst t s = Inr s'"
  shows "exists_token s' t \<and> erc_owners s' t = dst \<and> lessee (leases s' t) = dst"
  using transfer_Inr [OF assms] by (simp add: exists_token_def)

text \<open>
  Claim C9. In every reachable state the lessee recorded for an existing token is the
  token's ERC721 owner (what \<open>ownerOf\<close> returns). A successful \<open>mintLease\<close> mints
  the token to the lessee it records, and a successful transfer makes the recipient both
  the owner and the recorded lessee.
\<close>

theorem lessee_is_token_owner:
  assumes "reachable s"
  shows "(\<forall>t. exists_token s t \<longrightarrow>
            lessee (leases s t) = erc_owners s t \<and> ownerOf s t = Inr (lessee (leases s t)))
       \<and> (\<forall>sender a lo le dn sd ed pa re ah uri s' n.
            mintLease sender a lo le dn sd ed pa re ah uri s = Inr (s', n) \<longrightarrow>
            exists_token s' n \<and> erc_owners s' n = le \<and> lessee (leases s' n) = le)
       \<and> (\<forall>fr dst t s'. transfer fr dst t s = Inr s' \<longrightarrow>
            exists_token s' t \<and> erc_owners s' t = dst \<and> lessee (leases s' t) = dst)"
proof -
  have "lessee_inv s" using assms by (rule lessee_inv_reachable)
  then have 1: "\<forall>t. exists_token s t \<longrightarrow>
            lessee (leases s t) = erc_owners s t \<and> ownerOf s t = Inr (lessee (leases s t))"
    by (auto simp: lessee_inv_def ownerOf_def require_def exists_token_def)
  from 1 mint_to_lessee [of _ _ _ _ _ _ _ _ _ _ _ s] transfer_to_recipient [of _ _ _ s]
  show ?thesis by blast
qed

theorem lessee_is_token_owner_witness:
  "reachable demo_transferred \<and> exists_token demo_transferred 1
 \<and> erc_owners demo_transferred 1 = 9 \<and> lessee (leases demo_transferred 1) = 9
 \<and> ownerOf demo_transferred 1 = Inr 9"
proof -
  note a = lessee_is_token_owner [OF demo_transferred_reachable, THEN conjunct1, rule_format,
      OF demo_transferred_owner [THEN conjunct1]]
  from a demo_transferred_reachable demo_transferred_owner show ?thesis by simp
qed

section \<open>The marketplace routes (routes/domains.js)\<close>

text \<open>
  The routes read and write the Domain and Listing tables of models/index.js through the
  ORM, on a PostgreSQL store. A table is the list of its rows; \<open>findByPk\<close> and
  \<open>findOne\<close> return the first row that matches, \<open>create\<close> appends a row, \<open>update\<close>
  and \<open>increment\<close> replace the row with the same primary key. A row holds what the
  store keeps of the values the route hands to the ORM, column by column as the model
  file declares them:
  \<^item> a \<open>UUID\<close> is a 128-bit word. A path whose \<open>:id\<close> is no UUID makes the query
    throw (reply 500, nothing written); the handlers take the key as a UUID. Primary keys
    are drawn at random by the ORM; the model takes the drawn key as an argument.
  \<^item> \<open>DECIMAL(10, 2)\<close> keeps two decimals, rounding half away from zero, and refuses a
    value whose rounded magnitude reaches \<open>10 ^ 8\<close>.
  \<^item> \<open>INTEGER\<close> holds the whole numbers of 32 bits and refuses any other.
  \<^item> \<open>TEXT\<close> refuses a string with a NUL character; \<open>STRING(n)\<close> refuses that and
    more than \<open>n\<close> characters (\<open>STRING\<close> is \<open>STRING(255)\<close>).
  \<^item> an \<open>ENUM\<close> is a datatype, and a string outside its values is refused.
  \<^item> a nullable column is an option; a column that is \<open>allowNull: false\<close> refuses
    an absent value.
  A write that the store refuses throws, and nothing of it is written. Strings are lists
  of 8-bit characters. The ORM stamps every row with \<open>createdAt\<close> and \<open>updatedAt\<close>;
  the model keeps the stamps of the Listing table. \<open>stamp\<close> is the \<open>updatedAt\<close> that
  a save leaves in the row: the time of the save, or the row's old value where the ORM
  skips a save that changes no column.

  A handler takes the tables, that stamp, the authenticated user (\<open>req.userId\<close>, set by
  the \<open>authenticate\<close> middleware, which has found that user in the User table, so
  that a row's reference to its owner or lessor holds) and the request, and returns the
  tables and the reply: the HTTP status, the reply's \<open>error\<close> text, or on success
  its \<open>message\<close> (as the bytes sent, the emoji that ends some messages in UTF-8), and
  the \<open>id\<close> and \<open>status\<close> of the listing in the body of a success reply; the rest
  of the body is not modelled. An exception inside a handler is caught by its \<open>catch\<close> block, which
  replies 500.
\<close>

type_synonym uuid = "128 word"

datatype listing_status = Active | Leased | Expired | Cancelled

datatype domain_type = Web2 | Web3

record Domain =
  domain_id :: uuid
  domainName :: string
  tld :: string
  domainType :: domain_type
  ownerId :: uuid
  existingSiteUrl :: "string option"
  verificationStatus :: string

record Listing =
  listing_id :: uuid
  domainId :: uuid
  lessorId :: uuid
  leaseType :: string
  priceAmount :: rat
  priceCurrency :: string
  durationDays :: int
  restrictions :: "string option"
  description :: "string option"
  tags :: "string list"
  status :: listing_status
  nftContractAddress :: "string option"
  nftTokenId :: "string option"
  qrCodeUrl :: "string option"
  viewsCount :: int
  featured :: bool
  createdAt :: nat
  updatedAt :: nat

record InteractionHistory =
  ih_userId :: uuid
  ih_domainId :: "uuid option"
  ih_listingId :: "uuid option"
  ih_actionType :: string
  ih_source :: string

record tables =
  domains :: "Domain list"
  listings :: "Listing list"
  interactions :: "InteractionHistory list"

datatype reply = Reply nat string "(uuid \<times> listing_status) option"

definition sparkles :: string where
  \<comment> \<open>U+2728 in UTF-8\<close>
  "sparkles = [CHR 0xE2, CHR 0x9C, CHR 0xA8]"


definition findByPk :: "tables \<Rightarrow> uuid \<Rightarrow> Listing option" where
  "findByPk d i = find (\<lambda>l. listing_id l = i) (listings d)"



definition save :: "tables \<Rightarrow> Listing \<Rightarrow> tables" where
  \<comment> \<open>instance.update / instance.increment: the row with this key is replaced\<close>
  "save d l = d\<lparr>listings := map (\<lambda>x. if listing_id x = listing_id l then l else x) (listings d)\<rparr>"

subsection \<open>What the store keeps of a value\<close>

definition round2 :: "rat \<Rightarrow> rat" where
  \<comment> \<open>to two decimals, ties away from zero\<close>
  "round2 x = (if 0 \<le> x then of_int \<lfloor>x * 100 + 1 / 2\<rfloor> / 100
               else - (of_int \<lfloor>- x * 100 + 1 / 2\<rfloor> / 100))"

definition decimal_10_2 :: "rat \<Rightarrow> rat option" where
  "decimal_10_2 x = (if \<bar>round2 x\<bar> < 100000000 then Some (round2 x) else None)"


definition text_ok :: "string \<Rightarrow> bool" where
  "text_ok s = (CHR 0x00 \<notin> set s)"

definition string_ok :: "nat \<Rightarrow> string \<Rightarrow> bool" where
  "string_ok n s = (text_ok s \<and> length s \<le> n)"

definition status_of_string :: "string \<Rightarrow> listing_status option" where
  \<comment> \<open>the values of the status ENUM\<close>
  "status_of_string s =
     (if s = ''active'' then Some Active
      else if s = ''leased'' then Some Leased
      else if s = ''expired'' then Some Expired
      else if s = ''cancelled'' then Some Cancelled
      else None)"


subsection \<open>JavaScript values of a request body\<close>

text \<open>
  A body field is absent (\<open>None\<close>) or has the JSON type of the column it is written
  to; a number is the rational denoted by the decimal text that JavaScript prints for
  it, which is what the store receives, and the number of months of a new listing is
  taken to be whole (a \<open>null\<close> in its place, which JavaScript multiplies to 0, is not
  among the requests considered). \<open>a || b\<close> is \<open>a\<close> when \<open>a\<close> is truthy and
  \<open>b\<close> otherwise. Absent fields, the number 0 and the empty string are falsy; every
  array is truthy, the empty one too.
\<close>

definition truthy_num :: "rat option \<Rightarrow> bool" where
  "truthy_num v = (case v of None \<Rightarrow> False | Some x \<Rightarrow> x \<noteq> 0)"

definition truthy_str :: "string option \<Rightarrow> bool" where
  "truthy_str v = (case v of None \<Rightarrow> False | Some s \<Rightarrow> s \<noteq> [])"

definition truthy_arr :: "string list option \<Rightarrow> bool" where
  "truthy_arr v = (case v of None \<Rightarrow> False | Some _ \<Rightarrow> True)"

subsection \<open>PATCH /api/domains/listings/:id\<close>

record listing_patch =
  patch_price :: "rat option"
  patch_description :: "string option"
  patch_restrictions :: "string option"
  patch_tags :: "string list option"
  patch_status :: "string option"

text \<open>
  The update hands the store, for each of the five columns, the body's value when that
  is truthy and the row's own value otherwise. The store keeps a value of the row as it
  is; of a value of the body it keeps what the column's type makes of it, or refuses it.
\<close>

definition price_column :: "rat option \<Rightarrow> rat \<Rightarrow> rat option" where
  \<comment> \<open>price || listing.priceAmount, into DECIMAL(10, 2)\<close>
  "price_column v old = (if truthy_num v then decimal_10_2 (the v) else Some old)"

definition text_column :: "string option \<Rightarrow> string option \<Rightarrow> string option option" where
  \<comment> \<open>description || listing.description, into TEXT\<close>
  "text_column v old = (if truthy_str v then (if text_ok (the v) then Some v else None) else Some old)"

definition tags_column :: "string list option \<Rightarrow> string list \<Rightarrow> string list option" where
  \<comment> \<open>tags || listing.tags, into ARRAY(STRING)\<close>
  "tags_column v old =
     (if truthy_arr v then (if list_all (string_ok 255) (the v) then Some (the v) else None)
      else Some old)"

definition status_column :: "string option \<Rightarrow> listing_status \<Rightarrow> listing_status option" where
  \<comment> \<open>status || listing.status, into the ENUM\<close>
  "status_column v old = (if truthy_str v then status_of_string (the v) else Some old)"

definition patch_listing ::
  "tables \<Rightarrow> nat \<Rightarrow> uuid \<Rightarrow> uuid \<Rightarrow> listing_patch \<Rightarrow> tables \<times> reply" where
  "patch_listing d stamp userId i b =
     (case findByPk d i of
        None \<Rightarrow> (d, Reply 404 ''Listing not found'' None)
      | Some listing \<Rightarrow>
          if lessorId listing \<noteq> userId then (d, Reply 403 ''Unauthorized'' None)
          else
            (case (price_column (patch_price b) (priceAmount listing),
                   text_column (patch_description b) (description listing),
                   text_column (patch_restrictions b) (restrictions listing),
                   tags_column (patch_tags b) (tags listing),
                   status_column (patch_status b) (status listing)) of
               (Some pr, Some de, Some re, Some ta, Some st) \<Rightarrow>
                 (save d (listing\<lparr>priceAmount := pr, description := de, restrictions := re,
                                   tags := ta, status := st, updatedAt := stamp\<rparr>),
                  Reply 200 (''Listing updated successfully! '' @ sparkles)
                    (Some (listing_id listing, st)))
             | _ \<Rightarrow> (d, Reply 500 ''Failed to update listing'' None)))"

subsection \<open>DELETE /api/domains/listings/:id\<close>

definition delete_listing :: "tables \<Rightarrow> nat \<Rightarrow> uuid \<Rightarrow> uuid \<Rightarrow> tables \<times> reply" where
  "delete_listing d stamp userId i =
     (case findByPk d i of
        None \<Rightarrow> (d, Reply 404 ''Listing not found'' None)
      | Some listing \<Rightarrow>
          if lessorId listing \<noteq> userId then (d, Reply 403 ''Unauthorized'' None)
          else if status listing = Leased then (d, Reply 400 ''Cannot delete active lease'' None)
          else (save d (listing\<lparr>status := Cancelled, updatedAt := stamp\<rparr>),
                Reply 200 ''Listing removed from marketplace''
                  (Some (listing_id listing, Cancelled))))"

subsection \<open>GET /api/domains/listings/:id\<close>


subsection \<open>POST /api/domains/listings\<close>



definition optional_ok :: "('a \<Rightarrow> bool) \<Rightarrow> 'a option \<Rightarrow> bool" where
  \<comment> \<open>an optional value: absent, or one that fits the column\<close>
  "optional_ok ok v = (case v of None \<Rightarrow> True | Some s \<Rightarrow> ok s)"




subsection \<open>Rows and their keys\<close>

lemma find_key_Some:
  "find (\<lambda>x. k x = i) xs = Some l \<Longrightarrow> k l = i \<and> l \<in> set xs"
  by (induction xs) (auto split: if_splits)

lemma find_key_replace:
  "find (\<lambda>x. k x = i) xs = Some l \<Longrightarrow> k l' = i \<Longrightarrow>
   find (\<lambda>x. k x = i) (map (\<lambda>x. if k x = k l' then l' else x) xs) = Some l'"
  by (induction xs) (auto split: if_splits)

lemma find_key_replace_other:
  "k l' \<noteq> i \<Longrightarrow>
   find (\<lambda>x. k x = i) (map (\<lambda>x. if k x = k l' then l' else x) xs) = find (\<lambda>x. k x = i) xs"
  by (induction xs) (auto split: if_splits)

lemma find_key_append:
  "find (\<lambda>x. k x = i) xs = Some l \<Longrightarrow> find (\<lambda>x. k x = i) (xs @ ys) = Some l"
  by (induction xs) (auto split: if_splits)


lemma findByPk_id: "findByPk d i = Some l \<Longrightarrow> listing_id l = i"
  unfolding findByPk_def by (drule find_key_Some) simp

lemma findByPk_save:
  "findByPk d i = Some l \<Longrightarrow> listing_id l' = i \<Longrightarrow> findByPk (save d l') i = Some l'"
  unfolding findByPk_def save_def
  using find_key_replace [of listing_id i "listings d" l l'] by simp

lemma findByPk_save_other:
  "listing_id l' \<noteq> i \<Longrightarrow> findByPk (save d l') i = findByPk d i"
  unfolding findByPk_def save_def
  using find_key_replace_other [of listing_id l' i "listings d"] by simp

lemma findByPk_append:
  "findByPk d i = Some l \<Longrightarrow> findByPk (d\<lparr>listings := listings d @ ys\<rparr>) i = Some l"
  unfolding findByPk_def by (simp add: find_key_append)



subsection \<open>A marketplace with one listing\<close>

text \<open>
  User 100 owns the domain \<open>dreamforge.com\<close> and has listed it for 100 over 30 days;
  the listing's status and its \<open>updatedAt\<close> are the parameters.
\<close>

definition demo_domain :: Domain where
  "demo_domain = \<lparr>domain_id = 10, domainName = ''dreamforge.com'', tld = ''com'',
     domainType = Web2, ownerId = 100, existingSiteUrl = None,
     verificationStatus = ''pending''\<rparr>"

definition demo_row :: "listing_status \<Rightarrow> nat \<Rightarrow> Listing" where
  "demo_row st t = \<lparr>listing_id = 1, domainId = 10, lessorId = 100,
     leaseType = ''fixed'', priceAmount = 100, priceCurrency = ''USD'', durationDays = 30,
     restrictions = None, description = Some ''a fine domain'', tags = [''tech''],
     status = st, nftContractAddress = None, nftTokenId = None, qrCodeUrl = None,
     viewsCount = 0, featured = False, createdAt = 0, updatedAt = t\<rparr>"

definition demo_listing :: "listing_status \<Rightarrow> Listing" where
  "demo_listing st = demo_row st 0"

definition demo_tables :: "listing_status \<Rightarrow> tables" where
  "demo_tables st = \<lparr>domains = [demo_domain], listings = [demo_listing st], interactions = []\<rparr>"

lemma demo_find: "findByPk (demo_tables st) 1 = Some (demo_listing st)"
  by (simp add: findByPk_def demo_tables_def demo_listing_def demo_row_def)

lemma demo_lessor: "lessorId (demo_listing st) = 100"
  by (simp add: demo_listing_def demo_row_def)

lemma demo_status: "status (demo_listing st) = st"
  by (simp add: demo_listing_def demo_row_def)

subsection \<open>Cancelling a listing\<close>

lemma delete_listing_lessor:
  assumes "findByPk d i = Some l" "lessorId l = u"
  shows "delete_listing d stamp u i =
     (if status l = Leased then (d, Reply 400 ''Cannot delete active lease'' None)
      else (save d (l\<lparr>status := Cancelled, updatedAt := stamp\<rparr>),
            Reply 200 ''Listing removed from marketplace'' (Some (i, Cancelled))))"
  using assms findByPk_id [OF assms(1)] by (simp add: delete_listing_def)


lemma demo_cancel_expired:
  "delete_listing (demo_tables Expired) 7 100 1 =
     ((demo_tables Expired)\<lparr>listings := [demo_row Cancelled 7]\<rparr>,
      Reply 200 ''Listing removed from marketplace'' (Some (1, Cancelled)))"
  by (simp add: delete_listing_def findByPk_def save_def demo_tables_def demo_listing_def
      demo_row_def)

text \<open>
  Claim C3, as the code has it. When the lessor cancels a listing whose status is
  \<open>leased\<close>, the reply is 400 "Cannot delete active lease" and the tables are
  unchanged. From every other status (\<open>active\<close>, and also \<open>expired\<close> and
  \<open>cancelled\<close>) the reply is 200, with the listing's id and the status \<open>cancelled\<close>,
  and the listing's status is \<open>cancelled\<close> afterwards, with the stamp of the save and
  every other field as before: the route's only guard on
  the status is the one for \<open>leased\<close>.
\<close>

theorem cancel_listing_by_status:
  assumes "findByPk d i = Some l" "lessorId l = u"
  shows "(status l = Leased \<longrightarrow>
            delete_listing d stamp u i = (d, Reply 400 ''Cannot delete active lease'' None))
       \<and> (status l \<noteq> Leased \<longrightarrow>
            snd (delete_listing d stamp u i)
              = Reply 200 ''Listing removed from marketplace'' (Some (i, Cancelled))
          \<and> findByPk (fst (delete_listing d stamp u i)) i
              = Some (l\<lparr>status := Cancelled, updatedAt := stamp\<rparr>))"
proof -
  have "findByPk (save d (l\<lparr>status := Cancelled, updatedAt := stamp\<rparr>)) i
      = Some (l\<lparr>status := Cancelled, updatedAt := stamp\<rparr>)"
    using assms(1) findByPk_id [OF assms(1)] by (intro findByPk_save) simp_all
  then show ?thesis by (simp add: delete_listing_lessor [OF assms])
qed

theorem cancel_listing_by_status_witness:
  "findByPk (demo_tables Leased) 1 = Some (demo_listing Leased)
 \<and> delete_listing (demo_tables Leased) 7 100 1
     = (demo_tables Leased, Reply 400 ''Cannot delete active lease'' None)
 \<and> findByPk (demo_tables Active) 1 = Some (demo_listing Active)
 \<and> snd (delete_listing (demo_tables Active) 7 100 1)
     = Reply 200 ''Listing removed from marketplace'' (Some (1, Cancelled))
 \<and> findByPk (fst (delete_listing (demo_tables Active) 7 100 1)) 1 = Some (demo_row Cancelled 7)
 \<and> findByPk (fst (delete_listing (demo_tables Expired) 7 100 1)) 1 = Some (demo_row Cancelled 7)"
proof -
  have c: "(demo_listing st)\<lparr>status := Cancelled, updatedAt := 7\<rparr> = demo_row Cancelled 7" for st
    by (simp add: demo_listing_def demo_row_def)
  note a = cancel_listing_by_status [OF demo_find demo_lessor, where stamp = 7, THEN conjunct1,
      rule_format]
  note b = cancel_listing_by_status [OF demo_find demo_lessor, where stamp = 7, THEN conjunct2,
      rule_format]
  have 1: "delete_listing (demo_tables Leased) 7 100 1
     = (demo_tables Leased, Reply 400 ''Cannot delete active lease'' None)"
    using a [of Leased] by (simp add: demo_status)
  have 2: "snd (delete_listing (demo_tables Active) 7 100 1)
     = Reply 200 ''Listing removed from marketplace'' (Some (1, Cancelled))"
    and 3: "findByPk (fst (delete_listing (demo_tables Active) 7 100 1)) 1 = Some (demo_row Cancelled 7)"
    using b [of Active] by (simp_all add: demo_status c)
  have 4: "findByPk (fst (delete_listing (demo_tables Expired) 7 100 1)) 1 = Some (demo_row Cancelled 7)"
    using b [of Expired] by (simp add: demo_status c)
  from 1 2 3 4 demo_find show ?thesis by (intro conjI)
qed

text \<open>
  The claim as stated asks for a failure with the status unchanged from \<open>leased\<close>,
  \<open>expired\<close> and \<open>cancelled\<close> alike. It fails on an \<open>expired\<close> listing, which the
  lessor's cancel turns into a \<open>cancelled\<close> one with reply 200.
\<close>

theorem cancel_terminal_counterexample:
  "\<not> (\<forall>d stamp u i l. findByPk d i = Some l \<and> lessorId l = u \<and> status l \<in> {Leased, Expired, Cancelled} \<longrightarrow>
        (\<exists>c msg r. snd (delete_listing d stamp u i) = Reply c msg r \<and> 400 \<le> c)
      \<and> (\<exists>l'. findByPk (fst (delete_listing d stamp u i)) i = Some l' \<and> status l' = status l))"
proof
  assume a: "\<forall>d stamp u i l. findByPk d i = Some l \<and> lessorId l = u \<and> status l \<in> {Leased, Expired, Cancelled} \<longrightarrow>
        (\<exists>c msg r. snd (delete_listing d stamp u i) = Reply c msg r \<and> 400 \<le> c)
      \<and> (\<exists>l'. findByPk (fst (delete_listing d stamp u i)) i = Some l' \<and> status l' = status l)"
  have "findByPk (demo_tables Expired) 1 = Some (demo_listing Expired)
      \<and> lessorId (demo_listing Expired) = 100
      \<and> status (demo_listing Expired) \<in> {Leased, Expired, Cancelled}"
    by (simp add: demo_find demo_lessor demo_status)
  with a have "\<exists>c msg r. snd (delete_listing (demo_tables Expired) 7 100 1) = Reply c msg r \<and> 400 \<le> c"
    by blast
  then show False by (simp add: demo_cancel_expired)
qed

subsection \<open>Updating a listing\<close>

text \<open>
  The update throws, and changes nothing, when the store refuses one of the five values.
  Otherwise it writes the row \<open>patched\<close>.
\<close>

definition patch_rejected :: "listing_patch \<Rightarrow> Listing \<Rightarrow> bool" where
  "patch_rejected b l =
     (price_column (patch_price b) (priceAmount l) = None
    \<or> text_column (patch_description b) (description l) = None
    \<or> text_column (patch_restrictions b) (restrictions l) = None
    \<or> tags_column (patch_tags b) (tags l) = None
    \<or> status_column (patch_status b) (status l) = None)"

definition patched :: "Listing \<Rightarrow> listing_patch \<Rightarrow> nat \<Rightarrow> Listing" where
  "patched l b stamp = l\<lparr>
      priceAmount := the (price_column (patch_price b) (priceAmount l)),
      description := the (text_column (patch_description b) (description l)),
      restrictions := the (text_column (patch_restrictions b) (restrictions l)),
      tags := the (tags_column (patch_tags b) (tags l)),
      status := the (status_column (patch_status b) (status l)),
      updatedAt := stamp\<rparr>"

lemma patch_listing_lessor:
  assumes "findByPk d i = Some l" "lessorId l = u"
  shows "patch_listing d stamp u i b =
     (if patch_rejected b l then (d, Reply 500 ''Failed to update listing'' None)
      else (save d (patched l b stamp),
            Reply 200 (''Listing updated successfully! '' @ sparkles)
              (Some (i, status (patched l b stamp)))))"
proof (cases "patch_rejected b l")
  case True
  then show ?thesis using assms
    unfolding patch_listing_def patch_rejected_def
    by (auto split: option.splits)
next
  case False
  then obtain pr de re ta st where
    "price_column (patch_price b) (priceAmount l) = Some pr"
    "text_column (patch_description b) (description l) = Some de"
    "text_column (patch_restrictions b) (restrictions l) = Some re"
    "tags_column (patch_tags b) (tags l) = Some ta"
    "status_column (patch_status b) (status l) = Some st"
    unfolding patch_rejected_def by auto
  with False assms findByPk_id [OF assms(1)] show ?thesis
    by (simp add: patch_listing_def patched_def)
qed


lemma findByPk_patched:
  assumes "findByPk d i = Some l"
  shows "findByPk (save d (patched l b stamp)) i = Some (patched l b stamp)"
  using assms findByPk_id [OF assms] by (intro findByPk_save) (simp_all add: patched_def)

lemma patched_price:
  "(patch_price b \<in> {None, Some 0} \<longrightarrow> priceAmount (patched l b stamp) = priceAmount l)
 \<and> (\<forall>p. patch_price b = Some p \<and> p \<noteq> 0 \<and> \<not> patch_rejected b l \<longrightarrow>
        priceAmount (patched l b stamp) = round2 p \<and> \<bar>round2 p\<bar> < 100000000)"
  by (auto simp: patched_def patch_rejected_def price_column_def truthy_num_def decimal_10_2_def
      split: if_splits)

lemma patched_texts:
  "(patch_description b \<in> {None, Some []} \<longrightarrow> description (patched l b stamp) = description l)
 \<and> (\<forall>s. patch_description b = Some s \<and> s \<noteq> [] \<and> \<not> patch_rejected b l \<longrightarrow>
        description (patched l b stamp) = Some s)
 \<and> (patch_restrictions b \<in> {None, Some []} \<longrightarrow> restrictions (patched l b stamp) = restrictions l)
 \<and> (\<forall>s. patch_restrictions b = Some s \<and> s \<noteq> [] \<and> \<not> patch_rejected b l \<longrightarrow>
        restrictions (patched l b stamp) = Some s)"
  by (auto simp: patched_def patch_rejected_def text_column_def truthy_str_def split: if_splits)

lemma patched_status:
  "(patch_status b \<in> {None, Some []} \<longrightarrow> status (patched l b stamp) = status l)
 \<and> (\<forall>s st. patch_status b = Some s \<and> status_of_string s = Some st \<longrightarrow>
        status (patched l b stamp) = st)"
  by (auto simp: patched_def status_column_def truthy_str_def status_of_string_def
      split: if_splits)

lemma patched_tags:
  "(patch_tags b = None \<longrightarrow> tags (patched l b stamp) = tags l)
 \<and> (\<forall>ts. patch_tags b = Some ts \<and> \<not> patch_rejected b l \<longrightarrow> tags (patched l b stamp) = ts)"
  by (auto simp: patched_def patch_rejected_def tags_column_def truthy_arr_def split: if_splits)

lemma patched_frame:
  "updatedAt (patched l b stamp) = stamp
 \<and> (patched l b stamp)\<lparr>priceAmount := priceAmount l, description := description l,
        restrictions := restrictions l, tags := tags l, status := status l,
        updatedAt := updatedAt l\<rparr> = l"
  by (simp add: patched_def)

lemma patch_rejected_iff:
  "patch_rejected b l \<longleftrightarrow>
     (\<exists>p. patch_price b = Some p \<and> p \<noteq> 0 \<and> 100000000 \<le> \<bar>round2 p\<bar>)
   \<or> (\<exists>s. patch_description b = Some s \<and> s \<noteq> [] \<and> \<not> text_ok s)
   \<or> (\<exists>s. patch_restrictions b = Some s \<and> s \<noteq> [] \<and> \<not> text_ok s)
   \<or> (\<exists>ts. patch_tags b = Some ts \<and> \<not> list_all (string_ok 255) ts)
   \<or> (\<exists>s. patch_status b = Some s \<and> s \<noteq> [] \<and> status_of_string s = None)"
  unfolding patch_rejected_def price_column_def text_column_def tags_column_def
    status_column_def truthy_num_def truthy_str_def truthy_arr_def decimal_10_2_def
  by (cases "patch_price b"; cases "patch_description b"; cases "patch_restrictions b";
      cases "patch_tags b"; cases "patch_status b") (simp_all add: not_less)

definition demo_patch :: listing_patch where
  "demo_patch = \<lparr>patch_price = Some 0, patch_description = Some [], patch_restrictions = None,
     patch_tags = Some [], patch_status = Some []\<rparr>"

definition demo_small_price :: listing_patch where
  \<comment> \<open>\<open>\{ "price": 0.004 \}\<close>\<close>
  "demo_small_price = \<lparr>patch_price = Some (1 / 250), patch_description = None,
     patch_restrictions = None, patch_tags = None, patch_status = None\<rparr>"


lemma demo_small_price_rounds: "round2 (1 / 250) = 0"
  by code_simp

lemma demo_decimals:
  "decimal_10_2 (1 / 250) = Some 0" "decimal_10_2 5 = Some 5" "decimal_10_2 (- 5) = Some (- 5)"
  by code_simp+

lemmas column_defs = price_column_def text_column_def tags_column_def status_column_def
  truthy_num_def truthy_str_def truthy_arr_def demo_decimals

lemma demo_patch_accepted: "\<not> patch_rejected demo_patch l"
  by (simp add: patch_rejected_def demo_patch_def column_defs)

lemma demo_small_price_accepted: "\<not> patch_rejected demo_small_price l"
  by (simp add: patch_rejected_def demo_small_price_def column_defs)


lemma demo_patch_result:
  "findByPk (fst (patch_listing (demo_tables Active) 7 100 1 demo_patch)) 1
     = Some ((demo_row Active 7)\<lparr>tags := []\<rparr>)"
  by (simp add: patch_listing_lessor [OF demo_find demo_lessor] demo_patch_accepted
      findByPk_patched [OF demo_find])
     (simp add: patched_def demo_patch_def demo_listing_def demo_row_def column_defs)


text \<open>
  Claim C10, as the code has it. In an update by the lessor, a field that is absent or
  falsy (price 0; empty description, restrictions or status string) leaves the stored
  value as it was. A truthy field replaces it with what the store keeps of it: a
  non-zero price is stored rounded to two decimals (so a price below half a cent is
  stored as 0), a description, restrictions or status as sent. An array is truthy even
  when empty: supplied tags always replace the stored tags, the empty list too. Every
  field other than price, description, restrictions, tags, status and \<open>updatedAt\<close> is
  unchanged. When the store refuses a value (a price that rounds to \<open>10 ^ 8\<close> or more
  in magnitude, a text with a NUL character, a tag that is no \<open>STRING\<close>, a status
  outside the ENUM) the update throws: reply 500, nothing changed.
\<close>

theorem patch_listing_fields:
  assumes "findByPk d i = Some l" "lessorId l = u"
  shows "(patch_rejected b l \<longrightarrow> patch_listing d stamp u i b = (d, Reply 500 ''Failed to update listing'' None))
       \<and> (\<not> patch_rejected b l \<longrightarrow>
            (\<exists>l'. snd (patch_listing d stamp u i b)
                    = Reply 200 (''Listing updated successfully! '' @ sparkles) (Some (i, status l'))
               \<and> findByPk (fst (patch_listing d stamp u i b)) i = Some l'
               \<and> (patch_price b \<in> {None, Some 0} \<longrightarrow> priceAmount l' = priceAmount l)
               \<and> (\<forall>p. patch_price b = Some p \<and> p \<noteq> 0 \<longrightarrow>
                      priceAmount l' = round2 p \<and> \<bar>round2 p\<bar> < 100000000)
               \<and> (patch_description b \<in> {None, Some []} \<longrightarrow> description l' = description l)
               \<and> (\<forall>s. patch_description b = Some s \<and> s \<noteq> [] \<longrightarrow> description l' = Some s)
               \<and> (patch_restrictions b \<in> {None, Some []} \<longrightarrow> restrictions l' = restrictions l)
               \<and> (\<forall>s. patch_restrictions b = Some s \<and> s \<noteq> [] \<longrightarrow> restrictions l' = Some s)
               \<and> (patch_status b \<in> {None, Some []} \<longrightarrow> status l' = status l)
               \<and> (\<forall>s st. patch_status b = Some s \<and> status_of_string s = Some st \<longrightarrow> status l' = st)
               \<and> (patch_tags b = None \<longrightarrow> tags l' = tags l)
               \<and> (\<forall>ts. patch_tags b = Some ts \<longrightarrow> tags l' = ts)
               \<and> updatedAt l' = stamp
               \<and> l'\<lparr>priceAmount := priceAmount l, description := description l,
                     restrictions := restrictions l, tags := tags l, status := status l,
                     updatedAt := updatedAt l\<rparr> = l))
       \<and> (patch_rejected b l \<longleftrightarrow>
            (\<exists>p. patch_price b = Some p \<and> p \<noteq> 0 \<and> 100000000 \<le> \<bar>round2 p\<bar>)
          \<or> (\<exists>s. patch_description b = Some s \<and> s \<noteq> [] \<and> \<not> text_ok s)
          \<or> (\<exists>s. patch_restrictions b = Some s \<and> s \<noteq> [] \<and> \<not> text_ok s)
          \<or> (\<exists>ts. patch_tags b = Some ts \<and> \<not> list_all (string_ok 255) ts)
          \<or> (\<exists>s. patch_status b = Some s \<and> s \<noteq> [] \<and> status_of_string s = None))"
proof (intro conjI impI)
  assume "patch_rejected b l"
  then show "patch_listing d stamp u i b = (d, Reply 500 ''Failed to update listing'' None)"
    by (simp add: patch_listing_lessor [OF assms])
next
  assume n: "\<not> patch_rejected b l"
  show "\<exists>l'. snd (patch_listing d stamp u i b)
                    = Reply 200 (''Listing updated successfully! '' @ sparkles) (Some (i, status l'))
               \<and> findByPk (fst (patch_listing d stamp u i b)) i = Some l'
               \<and> (patch_price b \<in> {None, Some 0} \<longrightarrow> priceAmount l' = priceAmount l)
               \<and> (\<forall>p. patch_price b = Some p \<and> p \<noteq> 0 \<longrightarrow>
                      priceAmount l' = round2 p \<and> \<bar>round2 p\<bar> < 100000000)
               \<and> (patch_description b \<in> {None, Some []} \<longrightarrow> description l' = description l)
               \<and> (\<forall>s. patch_description b = Some s \<and> s \<noteq> [] \<longrightarrow> description l' = Some s)
               \<and> (patch_restrictions b \<in> {None, Some []} \<longrightarrow> restrictions l' = restrictions l)
               \<and> (\<forall>s. patch_restrictions b = Some s \<and> s \<noteq> [] \<longrightarrow> restrictions l' = Some s)
               \<and> (patch_status b \<in> {None, Some []} \<longrightarrow> status l' = status l)
               \<and> (\<forall>s st. patch_status b = Some s \<and> status_of_string s = Some st \<longrightarrow> status l' = st)
               \<and> (patch_tags b = None \<longrightarrow> tags l' = tags l)
               \<and> (\<forall>ts. patch_tags b = Some ts \<longrightarrow> tags l' = ts)
               \<and> updatedAt l' = stamp
               \<and> l'\<lparr>priceAmount := priceAmount l, description := description l,
                     restrictions := restrictions l, tags := tags l, status := status l,
                     updatedAt := updatedAt l\<rparr> = l"
  proof (intro exI [of _ "patched l b stamp"] conjI)
    show "snd (patch_listing d stamp u i b)
        = Reply 200 (''Listing updated successfully! '' @ sparkles)
            (Some (i, status (patched l b stamp)))"
      using n by (simp add: patch_listing_lessor [OF assms])
    show "findByPk (fst (patch_listing d stamp u i b)) i = Some (patched l b stamp)"
      using n by (simp add: patch_listing_lessor [OF assms] findByPk_patched [OF assms(1)])
    show "updatedAt (patched l b stamp) = stamp"
      using patched_frame [of l b stamp] by blast
    show "(patched l b stamp)\<lparr>priceAmount := priceAmount l, description := description l,
                     restrictions := restrictions l, tags := tags l, status := status l,
                     updatedAt := updatedAt l\<rparr> = l"
      using patched_frame [of l b stamp] by blast
  qed (use n patched_price [of b l stamp] patched_texts [of b l stamp]
        patched_status [of b l stamp] patched_tags [of b l stamp] in blast)+
next
  show "patch_rejected b l \<longleftrightarrow>
            (\<exists>p. patch_price b = Some p \<and> p \<noteq> 0 \<and> 100000000 \<le> \<bar>round2 p\<bar>)
          \<or> (\<exists>s. patch_description b = Some s \<and> s \<noteq> [] \<and> \<not> text_ok s)
          \<or> (\<exists>s. patch_restrictions b = Some s \<and> s \<noteq> [] \<and> \<not> text_ok s)
          \<or> (\<exists>ts. patch_tags b = Some ts \<and> \<not> list_all (string_ok 255) ts)
          \<or> (\<exists>s. patch_status b = Some s \<and> s \<noteq> [] \<and> status_of_string s = None)"
    by (rule patch_rejected_iff)
qed

theorem patch_listing_fields_witness:
  "findByPk (demo_tables Active) 1 = Some (demo_listing Active)
 \<and> lessorId (demo_listing Active) = 100
 \<and> \<not> patch_rejected demo_patch (demo_listing Active)
 \<and> (\<exists>l'. findByPk (fst (patch_listing (demo_tables Active) 7 100 1 demo_patch)) 1 = Some l'
        \<and> priceAmount l' = 100 \<and> description l' = Some ''a fine domain''
        \<and> restrictions l' = None \<and> status l' = Active \<and> tags l' = [] \<and> updatedAt l' = 7)
 \<and> \<not> patch_rejected demo_small_price (demo_listing Active)
 \<and> (\<exists>l'. findByPk (fst (patch_listing (demo_tables Active) 7 100 1 demo_small_price)) 1 = Some l'
        \<and> priceAmount l' = 0)"
proof -
  note t = patch_listing_fields [OF demo_find [of Active] demo_lessor, where stamp = 7,
      THEN conjunct2, THEN conjunct1, rule_format]
  from t [of demo_patch, OF demo_patch_accepted] obtain l' where
    f: "findByPk (fst (patch_listing (demo_tables Active) 7 100 1 demo_patch)) 1 = Some l'"
    and p: "patch_price demo_patch \<in> {None, Some 0} \<longrightarrow> priceAmount l' = priceAmount (demo_listing Active)"
    and de: "patch_description demo_patch \<in> {None, Some []} \<longrightarrow> description l' = description (demo_listing Active)"
    and re: "patch_restrictions demo_patch \<in> {None, Some []} \<longrightarrow> restrictions l' = restrictions (demo_listing Active)"
    and st: "patch_status demo_patch \<in> {None, Some []} \<longrightarrow> status l' = status (demo_listing Active)"
    and ta: "\<forall>ts. patch_tags demo_patch = Some ts \<longrightarrow> tags l' = ts"
    and up: "updatedAt l' = 7"
    by blast
  from p de re st ta up have "priceAmount l' = 100 \<and> description l' = Some ''a fine domain''
        \<and> restrictions l' = None \<and> status l' = Active \<and> tags l' = [] \<and> updatedAt l' = 7"
    by (simp add: demo_patch_def demo_listing_def demo_row_def)
  with f have 1: "\<exists>l'. findByPk (fst (patch_listing (demo_tables Active) 7 100 1 demo_patch)) 1 = Some l'
        \<and> priceAmount l' = 100 \<and> description l' = Some ''a fine domain''
        \<and> restrictions l' = None \<and> status l' = Active \<and> tags l' = [] \<and> updatedAt l' = 7"
    by blast
  from t [of demo_small_price, OF demo_small_price_accepted] obtain m where
    g: "findByPk (fst (patch_listing (demo_tables Active) 7 100 1 demo_small_price)) 1 = Some m"
    and q: "\<forall>p. patch_price demo_small_price = Some p \<and> p \<noteq> 0 \<longrightarrow>
                      priceAmount m = round2 p \<and> \<bar>round2 p\<bar> < 100000000"
    by blast
  from q have "priceAmount m = round2 (1 / 250)" by (simp add: demo_small_price_def)
  then have "priceAmount m = 0" by (simp only: demo_small_price_rounds)
  with g have 2: "\<exists>l'. findByPk (fst (patch_listing (demo_tables Active) 7 100 1 demo_small_price)) 1 = Some l'
        \<and> priceAmount l' = 0"
    by blast
  from demo_find [of Active] demo_lessor [of Active] demo_patch_accepted demo_small_price_accepted 1 2
  show ?thesis by (intro conjI)
qed

text \<open>
  The claim as stated counts empty tags among the falsy values that are ignored. It fails
  on a listing tagged \<open>tech\<close>: an update with \<open>tags: []\<close> stores the empty list.
\<close>

theorem patch_empty_tags_counterexample:
  "\<not> (\<forall>d stamp u i b l. findByPk d i = Some l \<and> lessorId l = u \<and> patch_tags b = Some [] \<longrightarrow>
        (\<exists>l'. findByPk (fst (patch_listing d stamp u i b)) i = Some l' \<and> tags l' = tags l))"
proof
  assume a: "\<forall>d stamp u i b l. findByPk d i = Some l \<and> lessorId l = u \<and> patch_tags b = Some [] \<longrightarrow>
        (\<exists>l'. findByPk (fst (patch_listing d stamp u i b)) i = Some l' \<and> tags l' = tags l)"
  have "findByPk (demo_tables Active) 1 = Some (demo_listing Active)
      \<and> lessorId (demo_listing Active) = 100 \<and> patch_tags demo_patch = Some []"
    by (simp add: demo_find demo_lessor demo_patch_def)
  with a have "\<exists>l'. findByPk (fst (patch_listing (demo_tables Active) 7 100 1 demo_patch)) 1 = Some l'
      \<and> tags l' = tags (demo_listing Active)"
    by blast
  then show False by (simp add: demo_patch_result) (simp add: demo_listing_def demo_row_def)
qed

subsection \<open>A cancelled listing\<close>








subsection \<open>Publishing a listing\<close>






















section \<open>Sessions (routes/auth.js)\<close>

text \<open>
  The routes sign and verify session tokens with the jsonwebtoken library, hash
  passwords with bcryptjs and recover wallet addresses with ethers. None of the three is
  part of the repository. The token library is modelled symbolically: a token is its
  payload together with the key that signed it, or a string that is no token; verifying
  under a key accepts exactly the tokens signed with that key, and checks the expiry
  unless told to ignore it. The hash and the signature recovery are parameters. The
  clock is in milliseconds (\<open>Date.now()\<close>); the library stamps and checks tokens in
  whole seconds. The \<open>userId\<close> of a payload is a UUID, something else, or absent.
\<close>

datatype jwt_id = Id uuid | NotUuid | NoId

record jwt_payload =
  jwt_userId :: jwt_id
  jwt_iat :: nat
  jwt_exp :: "nat option"

datatype jwt = Signed string jwt_payload | Malformed

datatype jwt_error = JsonWebTokenError | TokenExpiredError

definition jwt_sign :: "uuid \<Rightarrow> string \<Rightarrow> nat \<Rightarrow> nat \<Rightarrow> jwt" where
  \<comment> \<open>jwt.sign(\{ userId \}, secret, \{ expiresIn \}) at the clock \<open>ms\<close>, \<open>expiresIn\<close> in seconds\<close>
  "jwt_sign userId secret expiresIn ms =
     Signed secret \<lparr>jwt_userId = Id userId, jwt_iat = ms div 1000,
                     jwt_exp = Some (ms div 1000 + expiresIn)\<rparr>"

definition jwt_verify :: "jwt \<Rightarrow> string \<Rightarrow> bool \<Rightarrow> nat \<Rightarrow> jwt_error + jwt_payload" where
  \<comment> \<open>jwt.verify(token, secret, \{ ignoreExpiration \}) at the clock \<open>ms\<close>\<close>
  "jwt_verify token secret ignoreExpiration ms =
     (case token of
        Malformed \<Rightarrow> Inl JsonWebTokenError
      | Signed k p \<Rightarrow>
          if k \<noteq> secret then Inl JsonWebTokenError
          else (case jwt_exp p of
                  Some e \<Rightarrow> if \<not> ignoreExpiration \<and> e \<le> ms div 1000
                            then Inl TokenExpiredError else Inr p
                | None \<Rightarrow> Inr p))"

text \<open>
  Of the User table the columns that the routes write; the others keep their defaults.
\<close>

record User =
  user_id :: uuid
  email :: string
  passwordHash :: string
  name :: string
  accountType :: string
  walletAddress :: "string option"
  emailVerified :: bool
  lastActive :: nat

record env =
  JWT_SECRET :: string
  now :: nat
  bcrypt_hash :: "string \<Rightarrow> string"
  bcrypt_compare :: "string \<Rightarrow> string \<Rightarrow> bool"
  verifyMessage :: "string \<Rightarrow> string \<Rightarrow> string option"
  random_password :: string
  isEmail :: "string \<Rightarrow> bool"

text \<open>
  \<open>JWT_SECRET\<close> is \<open>process.env.JWT_SECRET\<close>, which the server is started with
  (the library signs nothing with an absent or empty secret); \<open>now\<close> is the clock. \<open>verifyMessage\<close>
  is \<open>ethers.verifyMessage\<close>: the address recovered from a message and a signature,
  or \<open>None\<close> when it throws. \<open>random_password\<close> is \<open>Math.random().toString()\<close>,
  \<open>isEmail\<close> the validator of the User model's email column.
\<close>

definition seven_days :: nat where
  \<comment> \<open>the library reads \<open>'7d'\<close> as seven days, in seconds\<close>
  "seven_days = 7 * 24 * 60 * 60"

definition generateToken :: "env \<Rightarrow> uuid \<Rightarrow> jwt" where
  "generateToken e userId = jwt_sign userId (JWT_SECRET e) seven_days (now e)"

datatype auth_reply =
    Session nat jwt User
  | Refreshed jwt
  | Failure nat string

definition userByPk :: "User list \<Rightarrow> uuid \<Rightarrow> User option" where
  "userByPk us k = find (\<lambda>u. user_id u = k) us"

definition userByEmail :: "User list \<Rightarrow> string \<Rightarrow> User option" where
  "userByEmail us m = find (\<lambda>u. email u = m) us"

definition userByWallet :: "User list \<Rightarrow> string \<Rightarrow> User option" where
  "userByWallet us w = find (\<lambda>u. walletAddress u = Some w) us"

definition account_type_ok :: "string \<Rightarrow> bool" where
  "account_type_ok t = (t = ''lessor'' \<or> t = ''lessee'' \<or> t = ''both'')"

definition user_accepted :: "env \<Rightarrow> User list \<Rightarrow> User \<Rightarrow> bool" where
  \<comment> \<open>the store takes the row: its strings are \<open>STRING\<close>s, the email passes the column's
      validator, the account type is in the ENUM, and key, email and wallet address (the
      unique columns) are free\<close>
  "user_accepted e us u =
     (string_ok 255 (email u) \<and> isEmail e (email u) \<and> string_ok 255 (passwordHash u)
    \<and> string_ok 255 (name u) \<and> optional_ok (string_ok 255) (walletAddress u)
    \<and> account_type_ok (accountType u)
    \<and> userByPk us (user_id u) = None \<and> userByEmail us (email u) = None
    \<and> (case walletAddress u of None \<Rightarrow> True | Some w \<Rightarrow> userByWallet us w = None))"

definition create_user :: "env \<Rightarrow> User list \<Rightarrow> User \<Rightarrow> User list option" where
  \<comment> \<open>User.create: throws (\<open>None\<close>) when the store does not take the row\<close>
  "create_user e us u = (if user_accepted e us u then Some (us @ [u]) else None)"

definition touch :: "User list \<Rightarrow> User \<Rightarrow> User list" where
  \<comment> \<open>user.update: the row with this key is replaced\<close>
  "touch us u = map (\<lambda>x. if user_id x = user_id u then u else x) us"

definition seen :: "env \<Rightarrow> User \<Rightarrow> User" where
  \<comment> \<open>user.update(\{ lastActive: new Date() \})\<close>
  "seen e u = u\<lparr>lastActive := now e\<rparr>"

subsection \<open>POST /api/auth/register\<close>

record register_body =
  reg_email :: string
  reg_password :: string
  reg_name :: string
  reg_accountType :: "string option"

text \<open>
  \<open>valid\<close> is the outcome of the validation middleware (\<open>errors.isEmpty()\<close>), which
  has checked that email, password and name are there; \<open>newId\<close> is the key drawn for
  the new row. A lookup by a string with a NUL character throws.
\<close>

definition register_row :: "env \<Rightarrow> uuid \<Rightarrow> register_body \<Rightarrow> User" where
  \<comment> \<open>the row handed to User.create\<close>
  "register_row e newId b =
     \<lparr>user_id = newId, email = reg_email b,
      passwordHash = bcrypt_hash e (reg_password b), name = reg_name b,
      accountType = (if truthy_str (reg_accountType b) then the (reg_accountType b)
                     else ''lessee''),
      walletAddress = None, emailVerified = False, lastActive = now e\<rparr>"

definition register :: "env \<Rightarrow> User list \<Rightarrow> bool \<Rightarrow> uuid \<Rightarrow> register_body \<Rightarrow> User list \<times> auth_reply" where
  "register e us valid newId b =
     (if \<not> valid then (us, Failure 400 ''Validation failed'')
      else if \<not> text_ok (reg_email b) then (us, Failure 500 ''Registration failed'')
      else if userByEmail us (reg_email b) \<noteq> None then (us, Failure 409 ''User already exists'')
      else
        let user = register_row e newId b
        in (case create_user e us user of
              None \<Rightarrow> (us, Failure 500 ''Registration failed'')
            | Some us' \<Rightarrow> (us', Session 201 (generateToken e (user_id user)) user)))"

subsection \<open>POST /api/auth/login\<close>

text \<open>
  Email and password of the body are strings, as for register.
\<close>

definition login :: "env \<Rightarrow> User list \<Rightarrow> bool \<Rightarrow> string \<Rightarrow> string \<Rightarrow> User list \<times> auth_reply" where
  "login e us valid email' password =
     (if \<not> valid then (us, Failure 400 ''Validation failed'')
      else if \<not> text_ok email' then (us, Failure 500 ''Login failed'')
      else (case userByEmail us email' of
              None \<Rightarrow> (us, Failure 401 ''Invalid credentials'')
            | Some user \<Rightarrow>
                if \<not> bcrypt_compare e password (passwordHash user)
                then (us, Failure 401 ''Invalid credentials'')
                else let user' = seen e user
                     in (touch us user', Session 200 (generateToken e (user_id user')) user')))"

subsection \<open>POST /api/auth/wallet-login\<close>

definition toLowerCase :: "string \<Rightarrow> string" where
  \<comment> \<open>on 8-bit characters: A to Z (codes 65 to 90) and the capital letters of codes 192
      to 222 (but the sign at 215) move up by 32\<close>
  "toLowerCase s = map (\<lambda>c. let n = (of_char c :: nat)
                            in if (65 \<le> n \<and> n \<le> 90) \<or> (192 \<le> n \<and> n \<le> 222 \<and> n \<noteq> 215)
                               then char_of (n + 32) else c) s"

definition wallet_row :: "env \<Rightarrow> uuid \<Rightarrow> string \<Rightarrow> User" where
  \<comment> \<open>the row handed to User.create for a wallet that is seen for the first time\<close>
  "wallet_row e newId w =
     \<lparr>user_id = newId,
      email = take 10 w @ ''@wallet.godwallet.com'',
      passwordHash = bcrypt_hash e (random_password e),
      name = ''Wallet User '' @ take 6 w,
      accountType = ''both'', walletAddress = Some w,
      emailVerified = False, lastActive = now e\<rparr>"

text \<open>
  The wallet address of the body is absent (\<open>None\<close>: its \<open>toLowerCase\<close> throws) or a
  string.
\<close>

definition wallet_login ::
  "env \<Rightarrow> User list \<Rightarrow> uuid \<Rightarrow> string option \<Rightarrow> string \<Rightarrow> string \<Rightarrow> User list \<times> auth_reply" where
  "wallet_login e us newId walletAddress' signature message =
     (case verifyMessage e message signature of
        None \<Rightarrow> (us, Failure 500 ''Wallet login failed'')
      | Some recoveredAddress \<Rightarrow>
          (case walletAddress' of
             None \<Rightarrow> (us, Failure 500 ''Wallet login failed'')
           | Some w \<Rightarrow>
               if toLowerCase recoveredAddress \<noteq> toLowerCase w
               then (us, Failure 401 ''Invalid signature'')
               else if \<not> text_ok w then (us, Failure 500 ''Wallet login failed'')
               else
                 (case userByWallet us w of
                    None \<Rightarrow>
                      let user = wallet_row e newId w
                      in (case create_user e us user of
                            None \<Rightarrow> (us, Failure 500 ''Wallet login failed'')
                          | Some us' \<Rightarrow> (us', Session 200 (generateToken e (user_id user)) user))
                  | Some user \<Rightarrow>
                      let user' = seen e user
                      in (touch us user', Session 200 (generateToken e (user_id user')) user'))))"

subsection \<open>POST /api/auth/refresh\<close>

text \<open>
  The body's token is absent or empty (\<open>None\<close>: \<open>!token\<close>) or a string. The verification
  ignores the expiry; whatever throws in the handler is answered with 401: the
  verification, and the lookup of a \<open>userId\<close> that is a value but no UUID. The lookup of
  an absent \<open>userId\<close> finds nothing.
\<close>

definition refresh :: "env \<Rightarrow> User list \<Rightarrow> jwt option \<Rightarrow> User list \<times> auth_reply" where
  "refresh e us token =
     (case token of
        None \<Rightarrow> (us, Failure 401 ''No token provided'')
      | Some t \<Rightarrow>
          (case jwt_verify t (JWT_SECRET e) True (now e) of
             Inl _ \<Rightarrow> (us, Failure 401 ''Invalid token'')
           | Inr decoded \<Rightarrow>
               (case jwt_userId decoded of
                  NotUuid \<Rightarrow> (us, Failure 401 ''Invalid token'')
                | NoId \<Rightarrow> (us, Failure 404 ''User not found'')
                | Id k \<Rightarrow>
                    (case userByPk us k of
                       None \<Rightarrow> (us, Failure 404 ''User not found'')
                     | Some user \<Rightarrow> (us, Refreshed (generateToken e (user_id user)))))))"

subsection \<open>The token of every session\<close>

lemma find_mem: "find P xs = Some x \<Longrightarrow> x \<in> set xs"
  by (induction xs) (auto split: if_splits)

lemma touch_mem:
  assumes "u \<in> set us" "user_id u' = user_id u"
  shows "u' \<in> set (touch us u')"
proof -
  have "(\<lambda>x. if user_id x = user_id u' then u' else x) u = u'" using assms(2) by simp
  then have "u' \<in> (\<lambda>x. if user_id x = user_id u' then u' else x) ` set us"
    using assms(1) by (intro image_eqI [where x = u]) simp_all
  then show ?thesis unfolding touch_def by simp
qed

lemma create_user_Some: "create_user e us u = Some us' \<Longrightarrow> us' = us @ [u]"
  unfolding create_user_def by (simp split: if_split_asm)

lemma string_ok_text: "string_ok n s \<Longrightarrow> text_ok s"
  by (simp add: string_ok_def)

lemma register_ok:
  assumes "valid" "user_accepted e us (register_row e newId b)"
  shows "register e us valid newId b =
     (us @ [register_row e newId b],
      Session 201 (generateToken e newId) (register_row e newId b))"
proof -
  have m: "email (register_row e newId b) = reg_email b"
    and i: "user_id (register_row e newId b) = newId"
    by (simp_all add: register_row_def)
  from assms(2) have "text_ok (reg_email b)" "userByEmail us (reg_email b) = None"
    unfolding user_accepted_def m by (auto dest: string_ok_text)
  with assms show ?thesis by (simp add: register_def create_user_def i Let_def)
qed

lemma register_session:
  assumes "register e us valid newId b = (us', Session c tok user)"
  shows "tok = generateToken e (user_id user) \<and> user \<in> set us'"
proof -
  have v: "valid" using assms by (cases valid) (simp_all add: register_def)
  have t: "text_ok (reg_email b)"
    using assms v by (cases "text_ok (reg_email b)") (simp_all add: register_def)
  have n: "userByEmail us (reg_email b) = None"
    using assms v t by (cases "userByEmail us (reg_email b)") (simp_all add: register_def)
  have r: "register e us valid newId b =
      (case create_user e us (register_row e newId b) of
              None \<Rightarrow> (us, Failure 500 ''Registration failed'')
            | Some us' \<Rightarrow> (us', Session 201 (generateToken e (user_id (register_row e newId b)))
                  (register_row e newId b)))"
    unfolding register_def Let_def using v t n by simp
  show ?thesis
  proof (cases "create_user e us (register_row e newId b)")
    case None
    with r assms show ?thesis by simp
  next
    case (Some us1)
    with r assms have "us' = us1" "tok = generateToken e (user_id (register_row e newId b))"
      "user = register_row e newId b" by simp_all
    with create_user_Some [OF Some] show ?thesis by simp
  qed
qed

lemma login_ok:
  assumes "valid" "text_ok m" "userByEmail us m = Some u" "bcrypt_compare e pw (passwordHash u)"
  shows "login e us valid m pw =
     (touch us (seen e u), Session 200 (generateToken e (user_id u)) (seen e u))"
  using assms by (simp add: login_def Let_def seen_def)

lemma login_session:
  assumes "login e us valid m pw = (us', Session c tok user)"
  shows "tok = generateToken e (user_id user) \<and> user \<in> set us'"
proof -
  have v: "valid" using assms by (cases valid) (simp_all add: login_def)
  have t: "text_ok m" using assms v by (cases "text_ok m") (simp_all add: login_def)
  obtain u where u: "userByEmail us m = Some u"
    using assms v t by (cases "userByEmail us m") (simp_all add: login_def)
  have p: "bcrypt_compare e pw (passwordHash u)"
    using assms v t u by (cases "bcrypt_compare e pw (passwordHash u)") (simp_all add: login_def)
  have "(us', Session c tok user) =
         (touch us (seen e u), Session 200 (generateToken e (user_id u)) (seen e u))"
    unfolding assms [symmetric] by (rule login_ok [OF v t u p])
  then have r: "user = seen e u" "us' = touch us user" "tok = generateToken e (user_id u)"
    by auto
  have i: "user_id user = user_id u" by (simp add: r(1) seen_def)
  from u have "u \<in> set us" unfolding userByEmail_def by (rule find_mem)
  then have "user \<in> set (touch us user)" using i by (rule touch_mem)
  with r i show ?thesis by simp
qed

lemma wallet_login_known:
  assumes "verifyMessage e m sg = Some ra" "toLowerCase ra = toLowerCase w" "text_ok w"
    "userByWallet us w = Some u"
  shows "wallet_login e us newId (Some w) sg m =
     (touch us (seen e u), Session 200 (generateToken e (user_id u)) (seen e u))"
  using assms by (simp add: wallet_login_def Let_def seen_def)

lemma wallet_login_new:
  assumes "verifyMessage e m sg = Some ra" "toLowerCase ra = toLowerCase w" "text_ok w"
    "userByWallet us w = None" "user_accepted e us (wallet_row e newId w)"
  shows "wallet_login e us newId (Some w) sg m =
     (us @ [wallet_row e newId w], Session 200 (generateToken e newId) (wallet_row e newId w))"
proof -
  have i: "user_id (wallet_row e newId w) = newId" by (simp add: wallet_row_def)
  from assms show ?thesis by (simp add: wallet_login_def create_user_def i Let_def)
qed

lemma wallet_login_session:
  assumes "wallet_login e us newId wo sg m = (us', Session c tok user)"
  shows "tok = generateToken e (user_id user) \<and> user \<in> set us'"
proof -
  obtain ra where ra: "verifyMessage e m sg = Some ra"
    using assms by (cases "verifyMessage e m sg") (simp_all add: wallet_login_def)
  obtain w where w: "wo = Some w"
    using assms ra by (cases wo) (simp_all add: wallet_login_def)
  have lo: "toLowerCase ra = toLowerCase w"
    using assms ra w by (cases "toLowerCase ra = toLowerCase w") (simp_all add: wallet_login_def)
  have t: "text_ok w"
    using assms ra w lo by (cases "text_ok w") (simp_all add: wallet_login_def)
  show ?thesis
  proof (cases "userByWallet us w")
    case None
    have r: "wallet_login e us newId wo sg m =
        (case create_user e us (wallet_row e newId w) of
                       None \<Rightarrow> (us, Failure 500 ''Wallet login failed'')
                     | Some us' \<Rightarrow> (us', Session 200
                          (generateToken e (user_id (wallet_row e newId w))) (wallet_row e newId w)))"
      unfolding wallet_login_def Let_def using ra w lo t None by simp
    show ?thesis
    proof (cases "create_user e us (wallet_row e newId w)")
      case None
      with r assms show ?thesis by simp
    next
      case (Some us1)
      with r assms have "us' = us1" "tok = generateToken e (user_id (wallet_row e newId w))"
        "user = wallet_row e newId w" by simp_all
      with create_user_Some [OF Some] show ?thesis by simp
    qed
  next
    case (Some u)
    have "(us', Session c tok user) =
           (touch us (seen e u), Session 200 (generateToken e (user_id u)) (seen e u))"
      unfolding assms [symmetric] w by (rule wallet_login_known [OF ra lo t Some])
    then have r: "user = seen e u" "us' = touch us user" "tok = generateToken e (user_id u)"
      by auto
    have i: "user_id user = user_id u" by (simp add: r(1) seen_def)
    from Some have "u \<in> set us" unfolding userByWallet_def by (rule find_mem)
    then have "user \<in> set (touch us user)" using i by (rule touch_mem)
    with r i show ?thesis by simp
  qed
qed

lemma refresh_signed:
  "refresh e us (Some (Signed (JWT_SECRET e) p)) =
     (case jwt_userId p of
        NotUuid \<Rightarrow> (us, Failure 401 ''Invalid token'')
      | NoId \<Rightarrow> (us, Failure 404 ''User not found'')
      | Id k \<Rightarrow>
          (case userByPk us k of
             None \<Rightarrow> (us, Failure 404 ''User not found'')
           | Some user \<Rightarrow> (us, Refreshed (generateToken e (user_id user)))))"
  by (simp add: refresh_def jwt_verify_def split: option.splits)

lemma refresh_session:
  assumes "refresh e us t = (us', Refreshed tok)"
  shows "us' = us \<and> (\<exists>p k user. t = Some (Signed (JWT_SECRET e) p) \<and> jwt_userId p = Id k
            \<and> userByPk us k = Some user \<and> user_id user = k \<and> tok = generateToken e k)"
proof -
  obtain t' where t': "t = Some t'" using assms by (cases t) (simp_all add: refresh_def)
  obtain k p where s: "t' = Signed k p"
    using assms t' by (cases t') (simp_all add: refresh_def jwt_verify_def)
  have k: "k = JWT_SECRET e"
    using assms t' s by (cases "k = JWT_SECRET e") (simp_all add: refresh_def jwt_verify_def)
  from assms have r: "refresh e us (Some (Signed (JWT_SECRET e) p)) = (us', Refreshed tok)"
    by (simp add: t' s k)
  obtain i where i: "jwt_userId p = Id i"
    using r unfolding refresh_signed by (cases "jwt_userId p") simp_all
  obtain user where u: "userByPk us i = Some user"
    using r i unfolding refresh_signed by (cases "userByPk us i") simp_all
  have "user_id user = i" using u unfolding userByPk_def by (auto dest: find_key_Some)
  with r i u t' s k show ?thesis unfolding refresh_signed by simp
qed

lemma refresh_unsigned:
  "t = Malformed \<or> (\<exists>k p. t = Signed k p \<and> k \<noteq> JWT_SECRET e) \<Longrightarrow>
   refresh e us (Some t) = (us, Failure 401 ''Invalid token'')"
  by (auto simp: refresh_def jwt_verify_def)

lemma generateToken_eq:
  "generateToken e uid =
     Signed (JWT_SECRET e) \<lparr>jwt_userId = Id uid, jwt_iat = now e div 1000,
                             jwt_exp = Some (now e div 1000 + 604800)\<rparr>"
  by (simp add: generateToken_def jwt_sign_def seven_days_def)

lemma generateToken_valid:
  "jwt_verify (generateToken e uid) (JWT_SECRET e) False t =
     (if t div 1000 < now e div 1000 + 604800
      then Inr \<lparr>jwt_userId = Id uid, jwt_iat = now e div 1000,
                 jwt_exp = Some (now e div 1000 + 604800)\<rparr>
      else Inl TokenExpiredError)"
  by (simp add: generateToken_eq jwt_verify_def)

text \<open>
  A server whose clock reads 1000000999 milliseconds, with one user (key 1) who was
  last active at 0; a registration and a first wallet login that arrive then; and a
  token of user 1 that expired at second 604900.
\<close>

definition demo_env :: env where
  "demo_env = \<lparr>JWT_SECRET = ''s3cret'', now = 1000000999, bcrypt_hash = (\<lambda>p. ''#'' @ p),
     bcrypt_compare = (\<lambda>p h. h = ''#'' @ p), verifyMessage = (\<lambda>m s. Some s),
     random_password = ''0.5'', isEmail = (\<lambda>m. CHR ''@'' \<in> set m)\<rparr>"

definition demo_user :: "nat \<Rightarrow> User" where
  "demo_user t = \<lparr>user_id = 1, email = ''dreamer@example.com'',
     passwordHash = ''#SecurePass123!'', name = ''Dream Builder'', accountType = ''both'',
     walletAddress = None, emailVerified = False, lastActive = t\<rparr>"

definition demo_registration :: register_body where
  "demo_registration = \<lparr>reg_email = ''builder@example.com'', reg_password = ''Sup3rSecret'',
     reg_name = ''Site Builder'', reg_accountType = None\<rparr>"

definition demo_registered :: User where
  "demo_registered = \<lparr>user_id = 2, email = ''builder@example.com'',
     passwordHash = ''#Sup3rSecret'', name = ''Site Builder'', accountType = ''lessee'',
     walletAddress = None, emailVerified = False, lastActive = 1000000999\<rparr>"

definition demo_wallet_user :: User where
  "demo_wallet_user = \<lparr>user_id = 3, email = ''0xAbC123@wallet.godwallet.com'',
     passwordHash = ''#0.5'', name = ''Wallet User 0xAbC1'', accountType = ''both'',
     walletAddress = Some ''0xAbC123'', emailVerified = False, lastActive = 1000000999\<rparr>"

definition demo_expired_token :: jwt where
  \<comment> \<open>a token of user 1 that ran out long before the demo clock\<close>
  "demo_expired_token = Signed ''s3cret'' \<lparr>jwt_userId = Id 1, jwt_iat = 100, jwt_exp = Some 604900\<rparr>"

lemma demo_register_row: "register_row demo_env 2 demo_registration = demo_registered"
  by (simp add: register_row_def demo_env_def demo_registration_def demo_registered_def
      truthy_str_def)

lemma demo_register_accepted:
  "user_accepted demo_env [demo_user 0] (register_row demo_env 2 demo_registration)"
  unfolding demo_register_row
  by (simp add: user_accepted_def demo_registered_def demo_user_def demo_env_def string_ok_def
      text_ok_def optional_ok_def account_type_ok_def userByPk_def userByEmail_def)

lemma demo_wallet_row: "wallet_row demo_env 3 ''0xAbC123'' = demo_wallet_user"
  by (simp add: wallet_row_def demo_env_def demo_wallet_user_def)

lemma demo_wallet_accepted:
  "user_accepted demo_env [demo_user 0] (wallet_row demo_env 3 ''0xAbC123'')"
  unfolding demo_wallet_row
  by (simp add: user_accepted_def demo_wallet_user_def demo_user_def demo_env_def string_ok_def
      text_ok_def optional_ok_def account_type_ok_def userByPk_def userByEmail_def
      userByWallet_def)

lemma demo_wallet_case: "toLowerCase ''0xabc123'' = toLowerCase ''0xAbC123''"
  by code_simp

lemma demo_seen: "seen demo_env (demo_user 0) = demo_user 1000000999"
  by (simp add: seen_def demo_env_def demo_user_def)

lemma demo_touch: "touch [demo_user 0] (demo_user 1000000999) = [demo_user 1000000999]"
  by (simp add: touch_def demo_user_def)

text \<open>
  Claim C8. Register, login and wallet-login issue a session: a request that passes the
  validation and whose row the store takes (register), whose password matches the hash of
  the user with that email (login), or whose signature recovers the wallet address, for
  a known wallet and for a new one whose row the store takes (wallet-login), is answered
  with the user and with \<open>generateToken\<close> of that user's id; and whenever one of the
  three answers with a session at all, the token is \<open>generateToken\<close> of the id of the
  user in the answer, who is a row of the table. Whenever refresh answers with a token,
  it is \<open>generateToken\<close> of the id of the user that the presented token names.
  \<open>generateToken\<close> signs the user's id with the server's secret and an expiry 604800
  seconds (seven days) after the second of the issue, so the token verifies for exactly
  seven days. Refresh verifies with the expiry ignored: for a token signed with the
  secret, expired or not, it answers with a new token if the user of the payload exists,
  with 404 if there is no such user or no id in the payload, and with 401 if the id is
  no UUID; a token that is malformed or signed with another key is answered with 401.
\<close>

theorem session_tokens:
  "(\<forall>valid newId b us' c tok user.
      register e us valid newId b = (us', Session c tok user) \<longrightarrow>
      tok = generateToken e (user_id user) \<and> user \<in> set us')
 \<and> (\<forall>newId b. user_accepted e us (register_row e newId b) \<longrightarrow>
      register e us True newId b =
        (us @ [register_row e newId b],
         Session 201 (generateToken e newId) (register_row e newId b)))
 \<and> (\<forall>valid m pw us' c tok user.
      login e us valid m pw = (us', Session c tok user) \<longrightarrow>
      tok = generateToken e (user_id user) \<and> user \<in> set us')
 \<and> (\<forall>m pw u. text_ok m \<and> userByEmail us m = Some u \<and> bcrypt_compare e pw (passwordHash u) \<longrightarrow>
      login e us True m pw =
        (touch us (seen e u), Session 200 (generateToken e (user_id u)) (seen e u)))
 \<and> (\<forall>newId w sg m us' c tok user.
      wallet_login e us newId w sg m = (us', Session c tok user) \<longrightarrow>
      tok = generateToken e (user_id user) \<and> user \<in> set us')
 \<and> (\<forall>newId w sg m ra u.
      verifyMessage e m sg = Some ra \<and> toLowerCase ra = toLowerCase w \<and> text_ok w
      \<and> userByWallet us w = Some u \<longrightarrow>
      wallet_login e us newId (Some w) sg m =
        (touch us (seen e u), Session 200 (generateToken e (user_id u)) (seen e u)))
 \<and> (\<forall>newId w sg m ra.
      verifyMessage e m sg = Some ra \<and> toLowerCase ra = toLowerCase w \<and> text_ok w
      \<and> userByWallet us w = None \<and> user_accepted e us (wallet_row e newId w) \<longrightarrow>
      wallet_login e us newId (Some w) sg m =
        (us @ [wallet_row e newId w],
         Session 200 (generateToken e newId) (wallet_row e newId w)))
 \<and> (\<forall>t us' tok. refresh e us t = (us', Refreshed tok) \<longrightarrow>
      us' = us \<and> (\<exists>p k user. t = Some (Signed (JWT_SECRET e) p) \<and> jwt_userId p = Id k
          \<and> userByPk us k = Some user \<and> user_id user = k \<and> tok = generateToken e k))
 \<and> (\<forall>uid. generateToken e uid =
      Signed (JWT_SECRET e) \<lparr>jwt_userId = Id uid, jwt_iat = now e div 1000,
                              jwt_exp = Some (now e div 1000 + 604800)\<rparr>)
 \<and> (\<forall>uid t. jwt_verify (generateToken e uid) (JWT_SECRET e) False t =
      (if t div 1000 < now e div 1000 + 604800
       then Inr \<lparr>jwt_userId = Id uid, jwt_iat = now e div 1000,
                  jwt_exp = Some (now e div 1000 + 604800)\<rparr>
       else Inl TokenExpiredError))
 \<and> (\<forall>p. refresh e us (Some (Signed (JWT_SECRET e) p)) =
      (case jwt_userId p of
         NotUuid \<Rightarrow> (us, Failure 401 ''Invalid token'')
       | NoId \<Rightarrow> (us, Failure 404 ''User not found'')
       | Id k \<Rightarrow>
           (case userByPk us k of
              None \<Rightarrow> (us, Failure 404 ''User not found'')
            | Some user \<Rightarrow> (us, Refreshed (generateToken e (user_id user))))))
 \<and> (\<forall>t. t = Malformed \<or> (\<exists>k p. t = Signed k p \<and> k \<noteq> JWT_SECRET e) \<longrightarrow>
      refresh e us (Some t) = (us, Failure 401 ''Invalid token''))"
proof (intro conjI allI impI)
  fix valid newId b us' c tok user
  assume "register e us valid newId b = (us', Session c tok user)"
  from register_session [OF this]
  show "tok = generateToken e (user_id user)" "user \<in> set us'" by simp_all
next
  fix newId b
  assume "user_accepted e us (register_row e newId b)"
  with TrueI show "register e us True newId b =
        (us @ [register_row e newId b],
         Session 201 (generateToken e newId) (register_row e newId b))"
    by (rule register_ok)
next
  fix valid m pw us' c tok user
  assume "login e us valid m pw = (us', Session c tok user)"
  from login_session [OF this]
  show "tok = generateToken e (user_id user)" "user \<in> set us'" by simp_all
next
  fix m pw u
  assume a: "text_ok m \<and> userByEmail us m = Some u \<and> bcrypt_compare e pw (passwordHash u)"
  from a have "text_ok m" "userByEmail us m = Some u" "bcrypt_compare e pw (passwordHash u)"
    by simp_all
  with TrueI show "login e us True m pw =
        (touch us (seen e u), Session 200 (generateToken e (user_id u)) (seen e u))"
    by (rule login_ok)
next
  fix newId w sg m us' c tok user
  assume "wallet_login e us newId w sg m = (us', Session c tok user)"
  from wallet_login_session [OF this]
  show "tok = generateToken e (user_id user)" "user \<in> set us'" by simp_all
next
  fix newId w sg m ra u
  assume a: "verifyMessage e m sg = Some ra \<and> toLowerCase ra = toLowerCase w \<and> text_ok w
      \<and> userByWallet us w = Some u"
  from a have "verifyMessage e m sg = Some ra" "toLowerCase ra = toLowerCase w" "text_ok w"
    "userByWallet us w = Some u" by simp_all
  then show "wallet_login e us newId (Some w) sg m =
        (touch us (seen e u), Session 200 (generateToken e (user_id u)) (seen e u))"
    by (rule wallet_login_known)
next
  fix newId w sg m ra
  assume a: "verifyMessage e m sg = Some ra \<and> toLowerCase ra = toLowerCase w \<and> text_ok w
      \<and> userByWallet us w = None \<and> user_accepted e us (wallet_row e newId w)"
  from a have "verifyMessage e m sg = Some ra" "toLowerCase ra = toLowerCase w" "text_ok w"
    "userByWallet us w = None" "user_accepted e us (wallet_row e newId w)" by simp_all
  then show "wallet_login e us newId (Some w) sg m =
        (us @ [wallet_row e newId w],
         Session 200 (generateToken e newId) (wallet_row e newId w))"
    by (rule wallet_login_new)
next
  fix t us' tok
  assume "refresh e us t = (us', Refreshed tok)"
  from refresh_session [OF this]
  show "us' = us" "\<exists>p k user. t = Some (Signed (JWT_SECRET e) p) \<and> jwt_userId p = Id k
          \<and> userByPk us k = Some user \<and> user_id user = k \<and> tok = generateToken e k"
    by simp_all
next
  fix uid
  show "generateToken e uid =
      Signed (JWT_SECRET e) \<lparr>jwt_userId = Id uid, jwt_iat = now e div 1000,
                              jwt_exp = Some (now e div 1000 + 604800)\<rparr>"
    by (rule generateToken_eq)
next
  fix uid t
  show "jwt_verify (generateToken e uid) (JWT_SECRET e) False t =
      (if t div 1000 < now e div 1000 + 604800
       then Inr \<lparr>jwt_userId = Id uid, jwt_iat = now e div 1000,
                  jwt_exp = Some (now e div 1000 + 604800)\<rparr>
       else Inl TokenExpiredError)"
    by (rule generateToken_valid)
next
  fix p
  show "refresh e us (Some (Signed (JWT_SECRET e) p)) =
      (case jwt_userId p of
         NotUuid \<Rightarrow> (us, Failure 401 ''Invalid token'')
       | NoId \<Rightarrow> (us, Failure 404 ''User not found'')
       | Id k \<Rightarrow>
           (case userByPk us k of
              None \<Rightarrow> (us, Failure 404 ''User not found'')
            | Some user \<Rightarrow> (us, Refreshed (generateToken e (user_id user)))))"
    by (rule refresh_signed)
next
  fix t
  assume "t = Malformed \<or> (\<exists>k p. t = Signed k p \<and> k \<noteq> JWT_SECRET e)"
  then show "refresh e us (Some t) = (us, Failure 401 ''Invalid token'')"
    by (rule refresh_unsigned)
qed

theorem session_tokens_witness:
  "register demo_env [demo_user 0] True 2 demo_registration =
     ([demo_user 0, demo_registered], Session 201 (generateToken demo_env 2) demo_registered)
 \<and> login demo_env [demo_user 0] True ''dreamer@example.com'' ''SecurePass123!'' =
     ([demo_user 1000000999], Session 200 (generateToken demo_env 1) (demo_user 1000000999))
 \<and> wallet_login demo_env [demo_user 0] 3 (Some ''0xAbC123'') ''0xabc123'' ''Sign in'' =
     ([demo_user 0, demo_wallet_user], Session 200 (generateToken demo_env 3) demo_wallet_user)
 \<and> generateToken demo_env 1 =
     Signed ''s3cret'' \<lparr>jwt_userId = Id 1, jwt_iat = 1000000, jwt_exp = Some 1604800\<rparr>
 \<and> jwt_verify (generateToken demo_env 1) ''s3cret'' False 1604799999
     = Inr \<lparr>jwt_userId = Id 1, jwt_iat = 1000000, jwt_exp = Some 1604800\<rparr>
 \<and> jwt_verify (generateToken demo_env 1) ''s3cret'' False 1604800000 = Inl TokenExpiredError
 \<and> jwt_verify demo_expired_token ''s3cret'' False 1000000999 = Inl TokenExpiredError
 \<and> refresh demo_env [demo_user 0] (Some demo_expired_token)
     = ([demo_user 0], Refreshed (generateToken demo_env 1))
 \<and> refresh demo_env [] (Some demo_expired_token) = ([], Failure 404 ''User not found'')
 \<and> refresh demo_env [demo_user 0] (Some (Signed ''forged'' \<lparr>jwt_userId = Id 1, jwt_iat = 100, jwt_exp = None\<rparr>))
     = ([demo_user 0], Failure 401 ''Invalid token'')"
proof -
  note t1 = session_tokens [where e = demo_env and us = "[demo_user 0]", THEN conjunct2]
  note reg = t1 [THEN conjunct1, rule_format]
  note t3 = t1 [THEN conjunct2, THEN conjunct2]
  note log = t3 [THEN conjunct1, rule_format]
  note t5 = t3 [THEN conjunct2, THEN conjunct2]
  note t6 = t5 [THEN conjunct2]
  note wal = t6 [THEN conjunct1, rule_format]
  note t8 = t6 [THEN conjunct2, THEN conjunct2]
  note gen = t8 [THEN conjunct1, rule_format]
  note ver = t8 [THEN conjunct2, THEN conjunct1, rule_format]
  note ref = t8 [THEN conjunct2, THEN conjunct2, THEN conjunct1, rule_format]
  note bad = t8 [THEN conjunct2, THEN conjunct2, THEN conjunct2, rule_format]
  note ref0 = session_tokens [where e = demo_env and us = "[]", THEN conjunct2, THEN conjunct2,
      THEN conjunct2, THEN conjunct2, THEN conjunct2, THEN conjunct2, THEN conjunct2,
      THEN conjunct2, THEN conjunct2, THEN conjunct2, THEN conjunct1, rule_format]
  have s: "JWT_SECRET demo_env = ''s3cret''" and n: "now demo_env = 1000000999"
    by (simp_all add: demo_env_def)
  have "register demo_env [demo_user 0] True 2 demo_registration =
     ([demo_user 0] @ [register_row demo_env 2 demo_registration],
      Session 201 (generateToken demo_env 2) (register_row demo_env 2 demo_registration))"
    by (rule reg) (rule demo_register_accepted)
  then have r: "register demo_env [demo_user 0] True 2 demo_registration =
     ([demo_user 0, demo_registered], Session 201 (generateToken demo_env 2) demo_registered)"
    unfolding demo_register_row by simp
  have "login demo_env [demo_user 0] True ''dreamer@example.com'' ''SecurePass123!'' =
     (touch [demo_user 0] (seen demo_env (demo_user 0)),
      Session 200 (generateToken demo_env (user_id (demo_user 0))) (seen demo_env (demo_user 0)))"
    by (rule log) (simp add: text_ok_def userByEmail_def demo_user_def demo_env_def)
  then have l: "login demo_env [demo_user 0] True ''dreamer@example.com'' ''SecurePass123!'' =
     ([demo_user 1000000999], Session 200 (generateToken demo_env 1) (demo_user 1000000999))"
    unfolding demo_seen demo_touch by (simp add: demo_user_def)
  have "wallet_login demo_env [demo_user 0] 3 (Some ''0xAbC123'') ''0xabc123'' ''Sign in'' =
     ([demo_user 0] @ [wallet_row demo_env 3 ''0xAbC123''],
      Session 200 (generateToken demo_env 3) (wallet_row demo_env 3 ''0xAbC123''))"
  proof (rule wal [where ra = "''0xabc123''"], intro conjI)
    show "verifyMessage demo_env ''Sign in'' ''0xabc123'' = Some ''0xabc123''"
      by (simp add: demo_env_def)
    show "toLowerCase ''0xabc123'' = toLowerCase ''0xAbC123''" by (rule demo_wallet_case)
    show "text_ok ''0xAbC123''" by (simp add: text_ok_def)
    show "userByWallet [demo_user 0] ''0xAbC123'' = None"
      by (simp add: userByWallet_def demo_user_def)
    show "user_accepted demo_env [demo_user 0] (wallet_row demo_env 3 ''0xAbC123'')"
      by (rule demo_wallet_accepted)
  qed
  then have w: "wallet_login demo_env [demo_user 0] 3 (Some ''0xAbC123'') ''0xabc123'' ''Sign in'' =
     ([demo_user 0, demo_wallet_user], Session 200 (generateToken demo_env 3) demo_wallet_user)"
    unfolding demo_wallet_row by simp
  have g: "generateToken demo_env 1 =
     Signed ''s3cret'' \<lparr>jwt_userId = Id 1, jwt_iat = 1000000, jwt_exp = Some 1604800\<rparr>"
    using gen [where uid = 1] by (simp add: s n)
  have v1: "jwt_verify (generateToken demo_env 1) ''s3cret'' False 1604799999
     = Inr \<lparr>jwt_userId = Id 1, jwt_iat = 1000000, jwt_exp = Some 1604800\<rparr>"
    using ver [where uid = 1 and t = 1604799999] by (simp add: s n)
  have v2: "jwt_verify (generateToken demo_env 1) ''s3cret'' False 1604800000 = Inl TokenExpiredError"
    using ver [where uid = 1 and t = 1604800000] by (simp add: s n)
  have u1: "userByPk [demo_user 0] 1 = Some (demo_user 0)"
    and u0: "userByPk [] 1 = None" and i: "user_id (demo_user 0) = 1"
    by (simp_all add: userByPk_def demo_user_def)
  have r1: "refresh demo_env [demo_user 0] (Some demo_expired_token)
     = ([demo_user 0], Refreshed (generateToken demo_env 1))"
    using ref [where p = "\<lparr>jwt_userId = Id 1, jwt_iat = 100, jwt_exp = Some 604900\<rparr>"]
    by (simp add: s demo_expired_token_def u1 i)
  have r0: "refresh demo_env [] (Some demo_expired_token) = ([], Failure 404 ''User not found'')"
    using ref0 [where p = "\<lparr>jwt_userId = Id 1, jwt_iat = 100, jwt_exp = Some 604900\<rparr>"]
    by (simp add: s demo_expired_token_def u0)
  have f: "refresh demo_env [demo_user 0] (Some (Signed ''forged'' \<lparr>jwt_userId = Id 1, jwt_iat = 100, jwt_exp = None\<rparr>))
     = ([demo_user 0], Failure 401 ''Invalid token'')"
    using bad [where t = "Signed ''forged'' \<lparr>jwt_userId = Id 1, jwt_iat = 100, jwt_exp = None\<rparr>"]
    by (simp add: s)
  have e: "jwt_verify demo_expired_token ''s3cret'' False 1000000999 = Inl TokenExpiredError"
    by (simp add: jwt_verify_def demo_expired_token_def)
  from r l w g v1 v2 e r1 r0 f show ?thesis by (intro conjI)
qed

section \<open>Creating a lease (routes/leases.js)\<close>

text \<open>
  server.js mounts \<open>./routes/leases\<close> under \<open>/api/leases\<close>, but the file is not among
  the sources; only the Lease table of models/index.js is. The operation that creates a
  lease is therefore written after the specification (sections 4.1 to 4.3, 6 and 7): its
  state is the Listing table and the Lease table, the blockchain collaborator is the
  answer it gives to the one issuance request.
\<close>

datatype lease_status = LeaseActive | LeaseCompleted | LeaseTerminated | LeaseDisputed

record Lease =
  lease_id :: uuid
  lease_listingId :: uuid
  lease_lesseeId :: uuid
  lease_startDate :: int
  lease_endDate :: int
  lease_paymentAmount :: rat
  lease_status :: lease_status

record market =
  m_tables :: tables
  m_leases :: "Lease list"

text \<open>
  Modelled from the spec: the errors of section 7 that the operation can return, and the
  answers of \<open>issueLeaseToken\<close> of section 6 (a contract address and a token id, a
  transient network error, or a contract revert).
\<close>

datatype lease_error = InvalidStateError | BindingConflictError | TransientError | PermanentError

datatype issue_result = Issued string string | IssueTransient | IssuePermanent

definition retryable :: "lease_error \<Rightarrow> bool" where
  \<comment> \<open>Modelled from the spec: the error taxonomy of section 7, which is not in the sources.
      A collaborator's transient error is retryable with backoff; a contract revert
      (permanent), a binding conflict and an invalid state are not retried.\<close>
  "retryable e = (e = TransientError)"

definition markLeased :: "Listing \<Rightarrow> lease_error + Listing" where
  \<comment> \<open>Modelled from the spec: \<open>markLeased\<close> of section 4.1, missing with routes/leases.js.
      Transitions active to leased; fails with InvalidStateError if the status is not
      active.\<close>
  "markLeased l = (if status l = Active then Inr (l\<lparr>status := Leased\<rparr>) else Inl InvalidStateError)"

definition token_exists :: "tables \<Rightarrow> uuid \<Rightarrow> bool" where
  \<comment> \<open>Modelled from the spec: "a token already exists for this Domain" of section 4.3: some
      listing of the domain carries a token id.\<close>
  "token_exists d dm = list_ex (\<lambda>l. domainId l = dm \<and> nftTokenId l \<noteq> None) (listings d)"

definition bind :: "tables \<Rightarrow> issue_result \<Rightarrow> Listing \<Rightarrow> lease_error + Listing" where
  \<comment> \<open>Modelled from the spec: \<open>bind\<close> of section 4.3, missing with routes/leases.js. Fails
      with BindingConflictError if a token already exists for the domain; requests the
      token from the collaborator and records the returned contract address and token id
      on the listing; on an issuance failure nothing is recorded.\<close>
  "bind d issue l =
     (if token_exists d (domainId l) then Inl BindingConflictError
      else (case issue of
              Issued contractAddress tokenId \<Rightarrow>
                Inr (l\<lparr>nftContractAddress := Some contractAddress, nftTokenId := Some tokenId\<rparr>)
            | IssueTransient \<Rightarrow> Inl TransientError
            | IssuePermanent \<Rightarrow> Inl PermanentError))"

definition createLease ::
  "market \<Rightarrow> Listing \<Rightarrow> uuid \<Rightarrow> int \<times> int \<times> rat \<Rightarrow> bool \<Rightarrow> issue_result \<Rightarrow> uuid \<Rightarrow>
   market \<times> (lease_error + Lease)" where
  \<comment> \<open>Modelled from the spec: \<open>createLease\<close> of section 4.2, missing with routes/leases.js.
      Fails with InvalidStateError if the listing is not active. Otherwise creates the
      lease in status active, marks the listing leased and, if a token was requested,
      binds it. One transaction: when the binding fails the market is the one before the
      call, and the caller gets the binding's error.\<close>
  "createLease m listing lesseeId term nft issue newId =
     (if status listing \<noteq> Active then (m, Inl InvalidStateError)
      else
        let lease = \<lparr>lease_id = newId, lease_listingId = listing_id listing,
                      lease_lesseeId = lesseeId, lease_startDate = fst term,
                      lease_endDate = fst (snd term), lease_paymentAmount = snd (snd term),
                      lease_status = LeaseActive\<rparr>;
            m1 = m\<lparr>m_leases := m_leases m @ [lease]\<rparr>
        in (case markLeased listing of
              Inl e \<Rightarrow> (m, Inl e)
            | Inr leased \<Rightarrow>
                let m2 = m1\<lparr>m_tables := save (m_tables m1) leased\<rparr>
                in if \<not> nft then (m2, Inr lease)
                   else (case bind (m_tables m) issue leased of
                           Inl e \<Rightarrow> (m, Inl e)
                         | Inr bound_listing \<Rightarrow>
                             (m2\<lparr>m_tables := save (m_tables m2) bound_listing\<rparr>, Inr lease))))"

definition binding_error :: "tables \<Rightarrow> issue_result \<Rightarrow> Listing \<Rightarrow> lease_error option" where
  \<comment> \<open>the error of the binding step for this listing, if it fails\<close>
  "binding_error d issue l =
     (case bind d issue (l\<lparr>status := Leased\<rparr>) of Inl e \<Rightarrow> Some e | Inr _ \<Rightarrow> None)"

lemma createLease_binding_fails:
  assumes "status l = Active" "binding_error (m_tables m) issue l = Some e"
  shows "createLease m l lesseeId term True issue newId = (m, Inl e)"
  using assms
  by (simp add: createLease_def markLeased_def binding_error_def Let_def split: sum.splits)

lemma binding_error_transient:
  "binding_error d IssueTransient l =
     Some (if token_exists d (domainId l) then BindingConflictError else TransientError)"
  by (simp add: binding_error_def bind_def)

definition demo_market :: market where
  "demo_market = \<lparr>m_tables = demo_tables Active, m_leases = []\<rparr>"

lemma demo_no_token: "\<not> token_exists (m_tables demo_market) (domainId (demo_listing Active))"
  by (simp add: token_exists_def demo_market_def demo_tables_def demo_listing_def demo_row_def)

text \<open>
  Claim C2, on the operation as the specification describes it. When the binding step of
  a \<open>createLease\<close> with a token requested fails on an active listing, the market after
  the call is the market before it: no lease is stored and the listing is still active;
  the caller receives the binding step's error. That error is retryable exactly when the
  collaborator's answer is a transient error (and no token exists for the domain).
\<close>

theorem createLease_all_or_nothing:
  assumes "findByPk (m_tables m) (listing_id l) = Some l" "status l = Active"
    and "binding_error (m_tables m) issue l = Some e"
  shows "createLease m l lesseeId term True issue newId = (m, Inl e)
       \<and> m_leases (fst (createLease m l lesseeId term True issue newId)) = m_leases m
       \<and> (\<exists>l'. findByPk (m_tables (fst (createLease m l lesseeId term True issue newId))) (listing_id l)
               = Some l' \<and> status l' = Active)
       \<and> (issue = IssueTransient \<and> \<not> token_exists (m_tables m) (domainId l) \<longrightarrow>
            e = TransientError \<and> retryable e)
       \<and> (retryable e \<longleftrightarrow> issue = IssueTransient \<and> \<not> token_exists (m_tables m) (domainId l))"
proof -
  have r: "createLease m l lesseeId term True issue newId = (m, Inl e)"
    using assms(2,3) by (rule createLease_binding_fails)
  have t: "retryable e \<longleftrightarrow> issue = IssueTransient \<and> \<not> token_exists (m_tables m) (domainId l)"
    using assms(3)
    by (cases issue) (auto simp: binding_error_def bind_def retryable_def split: if_splits)
  from r t assms(1,2) show ?thesis by (auto simp: retryable_def)
qed

theorem createLease_all_or_nothing_witness:
  "findByPk (m_tables demo_market) (listing_id (demo_listing Active)) = Some (demo_listing Active)
 \<and> status (demo_listing Active) = Active
 \<and> binding_error (m_tables demo_market) IssueTransient (demo_listing Active) = Some TransientError
 \<and> createLease demo_market (demo_listing Active) 200 (0, 2592000, 100) True IssueTransient 50
     = (demo_market, Inl TransientError)
 \<and> retryable TransientError"
proof -
  have f: "findByPk (m_tables demo_market) (listing_id (demo_listing Active)) = Some (demo_listing Active)"
    using demo_find [of Active] by (simp add: demo_market_def demo_listing_def demo_row_def)
  have b: "binding_error (m_tables demo_market) IssueTransient (demo_listing Active) = Some TransientError"
    using demo_no_token by (simp add: binding_error_transient)
  note t = createLease_all_or_nothing [OF f demo_status b]
  have 1: "createLease demo_market (demo_listing Active) 200 (0, 2592000, 100) True IssueTransient 50
     = (demo_market, Inl TransientError)"
    using t by blast
  have 2: "retryable TransientError"
    using t demo_no_token by blast
  from f demo_status [of Active] b 1 2 show ?thesis by (intro conjI)
qed

text \<open>
  The claim as stated promises a retryable error for every failure of the binding step.
  By the specification's own taxonomy a contract revert is permanent: the caller of a
  \<open>createLease\<close> whose issuance reverts receives \<open>PermanentError\<close>, which is not
  retryable.
\<close>

theorem createLease_retryable_counterexample:
  "\<not> (\<forall>m l lesseeId term issue newId e.
        findByPk (m_tables m) (listing_id l) = Some l \<and> status l = Active
        \<and> binding_error (m_tables m) issue l = Some e \<longrightarrow>
        (\<exists>e'. snd (createLease m l lesseeId term True issue newId) = Inl e' \<and> retryable e'))"
proof
  assume a: "\<forall>m l lesseeId term issue newId e.
        findByPk (m_tables m) (listing_id l) = Some l \<and> status l = Active
        \<and> binding_error (m_tables m) issue l = Some e \<longrightarrow>
        (\<exists>e'. snd (createLease m l lesseeId term True issue newId) = Inl e' \<and> retryable e')"
  have f: "findByPk (m_tables demo_market) (listing_id (demo_listing Active)) = Some (demo_listing Active)"
    using demo_find [of Active] by (simp add: demo_market_def demo_listing_def demo_row_def)
  have b: "binding_error (m_tables demo_market) IssuePermanent (demo_listing Active) = Some PermanentError"
    using demo_no_token by (simp add: binding_error_def bind_def)
  have c: "createLease demo_market (demo_listing Active) 200 (0, 2592000, 100) True IssuePermanent 50
      = (demo_market, Inl PermanentError)"
    using demo_status b by (rule createLease_binding_fails)
  from a f demo_status [of Active] b
  have "\<exists>e'. snd (createLease demo_market (demo_listing Active) 200 (0, 2592000, 100) True IssuePermanent 50) = Inl e'
      \<and> retryable e'"
    by blast
  then show False by (simp add: c retryable_def)
qed

end
